theory Spec2Isabelle
  imports Complex_Main
begin

section \<open>Python strings\<close>

text \<open>
  A Python \<open>str\<close> is modelled as a \<open>string\<close>: the list of the bytes of its UTF-8 encoding.
  Substring tests against ASCII keywords agree on bytes and on code points. The functions
  below (\<open>lower\<close>, \<open>\d\<close>, \<open>split\<close>) treat the ASCII characters as Python does and leave
  every other byte alone, so the model is exact on text whose non-ASCII characters are
  neither cased letters, decimal digits nor white space.
\<close>

definition lower_char :: "char \<Rightarrow> char" where
  "lower_char c =
     (case map_of (zip ''ABCDEFGHIJKLMNOPQRSTUVWXYZ'' ''abcdefghijklmnopqrstuvwxyz'') c of
        None \<Rightarrow> c
      | Some d \<Rightarrow> d)"

definition str_lower :: "string \<Rightarrow> string" where
  \<comment> \<open>\<open>s.lower()\<close>\<close>
  "str_lower s = map lower_char s"

fun starts_with :: "string \<Rightarrow> string \<Rightarrow> bool" where
  \<comment> \<open>\<open>s.startswith(p)\<close>, the prefix first\<close>
  "starts_with [] s = True"
| "starts_with (p # ps) [] = False"
| "starts_with (p # ps) (c # cs) = (p = c \<and> starts_with ps cs)"

fun str_contains :: "string \<Rightarrow> string \<Rightarrow> bool" where
  \<comment> \<open>\<open>sub in s\<close>, the substring first\<close>
  "str_contains sub [] = (sub = [])"
| "str_contains sub (c # cs) = (starts_with sub (c # cs) \<or> str_contains sub cs)"

definition any_word_in :: "string list \<Rightarrow> string \<Rightarrow> bool" where
  \<comment> \<open>\<open>any(word in s for word in words)\<close>\<close>
  "any_word_in words s = list_ex (\<lambda>word. str_contains word s) words"

definition is_digit :: "char \<Rightarrow> bool" where
  "is_digit c = List.member ''0123456789'' c"

definition is_space :: "char \<Rightarrow> bool" where
  \<comment> \<open>the ASCII characters \<open>str.split()\<close> splits at: tab, LF, VT, FF, CR, FS, GS, RS, US, space\<close>
  "is_space c = List.member [9, 10, 11, 12, 13, 28, 29, 30, 31, 32 :: nat] (of_char c)"

fun runs_acc :: "(char \<Rightarrow> bool) \<Rightarrow> string \<Rightarrow> string \<Rightarrow> string list" where
  \<comment> \<open>the maximal runs of characters that satisfy \<open>P\<close>, left to right; \<open>cur\<close> is the run
      being read, reversed\<close>
  "runs_acc P cur [] = (if cur = [] then [] else [rev cur])"
| "runs_acc P cur (c # cs) =
     (if P c then runs_acc P (c # cur) cs
      else if cur = [] then runs_acc P [] cs
      else rev cur # runs_acc P [] cs)"

definition findall_digits :: "string \<Rightarrow> string list" where
  \<comment> \<open>\<open>re.findall(r'\d+', s)\<close>\<close>
  "findall_digits s = runs_acc is_digit [] s"

definition str_split :: "string \<Rightarrow> string list" where
  \<comment> \<open>\<open>s.split()\<close>\<close>
  "str_split s = runs_acc (\<lambda>c. \<not> is_space c) [] s"

definition digit_val :: "char \<Rightarrow> nat" where
  "digit_val c = of_char c - 48"

definition nat_of_digits :: "string \<Rightarrow> nat" where
  "nat_of_digits s = foldl (\<lambda>a c. 10 * a + digit_val c) 0 s"

definition digit_char :: "nat \<Rightarrow> char" where
  "digit_char n = ''0123456789'' ! n"

fun str_of_nat :: "nat \<Rightarrow> string" where
  "str_of_nat n =
     (if n < 10 then [digit_char n] else str_of_nat (n div 10) @ [digit_char (n mod 10)])"

definition str_of_int :: "int \<Rightarrow> string" where
  "str_of_int i = (if i < 0 then CHR ''-'' # str_of_nat (nat (- i)) else str_of_nat (nat i))"


section \<open>Python values, exceptions and the runtime\<close>

text \<open>
  The values JSON decodes to. A \<open>dict\<close> is an association list read with \<open>map_of\<close>.
  A \<open>float\<close> is carried as a real number (NaN and the infinities are not represented).
\<close>

datatype pyval =
    PNone
  | PBool bool
  | PInt int
  | PFloat real
  | PStr string
  | PList "pyval list"
  | PDict "(string \<times> pyval) list"

text \<open>
  Exceptions. \<open>External m\<close> is any exception raised by a library the repository calls
  (the HTTP client, the JSON decoder, the agent framework), with \<open>m\<close> what \<open>str(e)\<close> gives;
  \<open>ValidationError\<close> is what a constructor of the agent framework raises for a missing
  required field; the others are raised by the interpreter at the operations modelled below.
\<close>

datatype py_exc =
    External string
  | TypeError
  | AttributeError
  | IndexError
  | KeyError
  | ValueError
  | UnboundLocalError
  | ValidationError

text \<open>
  What the interpreter decides and the source does not: the message of a built-in
  exception, the text \<open>str()\<close> gives for a float, a list or a dict, and the limit on the
  number of digits \<open>int()\<close> converts (\<open>sys.get_int_max_str_digits()\<close>; \<open>0\<close> is no limit, as
  in interpreters that have none).
\<close>

record runtime =
  exc_message :: "py_exc \<Rightarrow> string"
  repr_value :: "pyval \<Rightarrow> string"
  max_str_digits :: nat

definition exc_str :: "runtime \<Rightarrow> py_exc \<Rightarrow> string" where
  \<comment> \<open>\<open>str(e)\<close>\<close>
  "exc_str rt e = (case e of External m \<Rightarrow> m | _ \<Rightarrow> exc_message rt e)"

definition py_str :: "runtime \<Rightarrow> pyval \<Rightarrow> string" where
  \<comment> \<open>\<open>str(v)\<close>, which is what \<open>f"{v}"\<close> inserts\<close>
  "py_str rt v =
     (case v of
        PStr s \<Rightarrow> s
      | PNone \<Rightarrow> ''None''
      | PBool b \<Rightarrow> (if b then ''True'' else ''False'')
      | PInt i \<Rightarrow> str_of_int i
      | _ \<Rightarrow> repr_value rt v)"

definition is_str :: "pyval \<Rightarrow> bool" where
  "is_str v = (case v of PStr s \<Rightarrow> True | _ \<Rightarrow> False)"

definition int_of_digits :: "runtime \<Rightarrow> string \<Rightarrow> py_exc + int" where
  \<comment> \<open>\<open>int(s)\<close> for \<open>s\<close> a run of decimal digits, which is all the agent converts\<close>
  "int_of_digits rt s =
     (if max_str_digits rt \<noteq> 0 \<and> max_str_digits rt < length s then Inl ValueError
      else Inr (int (nat_of_digits s)))"

definition then_do :: "py_exc + 'a \<Rightarrow> ('a \<Rightarrow> py_exc + 'b) \<Rightarrow> py_exc + 'b" where
  \<comment> \<open>sequencing: an exception ends the computation\<close>
  "then_do m f = (case m of Inl e \<Rightarrow> Inl e | Inr x \<Rightarrow> f x)"

fun first_char :: "string \<Rightarrow> string" where
  \<comment> \<open>the first character of a non-empty string: its leading byte and the UTF-8
      continuation bytes after it\<close>
  "first_char [] = []"
| "first_char (c # cs) = c # takeWhile (\<lambda>b. 128 \<le> (of_char b :: nat) \<and> (of_char b :: nat) < 192) cs"

fun py_in :: "string \<Rightarrow> pyval \<Rightarrow> py_exc + bool" where
  \<comment> \<open>\<open>key in v\<close> for a string \<open>key\<close>\<close>
  "py_in key (PDict d) = Inr (map_of d key \<noteq> None)"
| "py_in key (PList xs) = Inr (List.member xs (PStr key))"
| "py_in key (PStr s) = Inr (str_contains key s)"
| "py_in key v = Inl TypeError"

fun py_getitem :: "pyval \<Rightarrow> string \<Rightarrow> py_exc + pyval" where
  \<comment> \<open>\<open>v[key]\<close> for a string \<open>key\<close>\<close>
  "py_getitem (PDict d) key = (case map_of d key of None \<Rightarrow> Inl KeyError | Some x \<Rightarrow> Inr x)"
| "py_getitem v key = Inl TypeError"

fun py_get :: "pyval \<Rightarrow> string \<Rightarrow> pyval \<Rightarrow> py_exc + pyval" where
  \<comment> \<open>\<open>v.get(key, default)\<close>\<close>
  "py_get (PDict d) key dflt = Inr (case map_of d key of None \<Rightarrow> dflt | Some x \<Rightarrow> x)"
| "py_get v key dflt = Inl AttributeError"

fun py_getitem0 :: "pyval \<Rightarrow> py_exc + pyval" where
  \<comment> \<open>\<open>v[0]\<close>; the keys of a decoded JSON object are strings, so \<open>0\<close> is never one\<close>
  "py_getitem0 (PList []) = Inl IndexError"
| "py_getitem0 (PList (x # xs)) = Inr x"
| "py_getitem0 (PStr []) = Inl IndexError"
| "py_getitem0 (PStr (c # cs)) = Inr (PStr (first_char (c # cs)))"
| "py_getitem0 (PDict d) = Inl KeyError"
| "py_getitem0 v = Inl TypeError"


section \<open>CosmosQueryAgent\<close>

subsection \<open>The MCP server, as the agent sees it\<close>

text \<open>
  A \<open>tools/call\<close> request is the tool's name and its arguments. The server and the HTTP
  client are outside the repository: what one request leads to is either an exception
  raised by the client (\<open>Raises\<close>) or a response, of which the repository reads
  \<open>status_code\<close>, \<open>headers.get\<close> (header names in lower case), \<open>text\<close> and \<open>json()\<close>
  (which raises on a body that is not JSON).
\<close>

type_synonym args = "(string \<times> pyval) list"

type_synonym tool_call = "string \<times> args"

record response =
  status_code :: nat
  headers :: "(string \<times> string) list"
  body_text :: string
  body_json :: "py_exc + pyval"

datatype http_outcome =
    Raises py_exc
  | Responds response

type_synonym server = "tool_call \<Rightarrow> http_outcome"

text \<open>
  A method of the agent returns the requests it sent, in order, and its result:
  \<open>Inl\<close> an exception that leaves the method, \<open>Inr\<close> the value returned.
\<close>

type_synonym 'a effect = "tool_call list \<times> (py_exc + 'a)"

definition first_content_text :: "pyval \<Rightarrow> py_exc + pyval" where
  \<comment> \<open>\<open>result["result"].get("content", [{}])[0].get("text", "No result")\<close>\<close>
  "first_content_text result =
     then_do (py_getitem result ''result'') (\<lambda>r.
     then_do (py_get r ''content'' (PList [PDict []])) (\<lambda>content.
     then_do (py_getitem0 content) (\<lambda>item.
     py_get item ''text'' (PStr ''No result''))))"

definition error_message_text :: "runtime \<Rightarrow> pyval \<Rightarrow> py_exc + pyval" where
  \<comment> \<open>\<open>f"Error: {result['error'].get('message', 'Unknown error')}"\<close>\<close>
  "error_message_text rt result =
     then_do (py_getitem result ''error'') (\<lambda>err.
     then_do (py_get err ''message'' (PStr ''Unknown error'')) (\<lambda>msg.
     Inr (PStr (''Error: '' @ py_str rt msg))))"

definition read_result :: "runtime \<Rightarrow> pyval \<Rightarrow> py_exc + pyval" where
  \<comment> \<open>the \<open>if "result" in result: ... elif "error" in result: ... else: ...\<close> on the decoded body\<close>
  "read_result rt result =
     then_do (py_in ''result'' result) (\<lambda>has_result.
     if has_result then first_content_text result
     else then_do (py_in ''error'' result) (\<lambda>has_error.
          if has_error then error_message_text rt result
          else Inr (PStr ''Unknown response format'')))"

definition read_response :: "runtime \<Rightarrow> http_outcome \<Rightarrow> py_exc + pyval" where
  \<comment> \<open>the body of the \<open>try\<close> block of \<open>_call_mcp_tool\<close>, from the request on\<close>
  "read_response rt outcome =
     (case outcome of
        Raises e \<Rightarrow> Inl e
      | Responds response \<Rightarrow>
          if status_code response = 200 then then_do (body_json response) (read_result rt)
          else Inr (PStr (''HTTP Error '' @ str_of_nat (status_code response) @ '': '' @
                          body_text response)))"

definition call_mcp_tool :: "runtime \<Rightarrow> server \<Rightarrow> string \<Rightarrow> args option \<Rightarrow> pyval effect" where
  "call_mcp_tool rt srv tool_name arguments =
     (let arguments = (case arguments of None \<Rightarrow> [] | Some a \<Rightarrow> a) in
      ([(tool_name, arguments)],
       (case read_response rt (srv (tool_name, arguments)) of
          Inl e \<Rightarrow> Inr (PStr (''Error calling tool: '' @ exc_str rt e))
        | Inr v \<Rightarrow> Inr v)))"

subsection \<open>The tool wrappers\<close>

definition container_args :: "string option \<Rightarrow> args" where
  \<comment> \<open>\<open>{"container_name": container_name} if container_name else {}\<close>\<close>
  "container_args container_name =
     (case container_name of
        None \<Rightarrow> []
      | Some n \<Rightarrow> if n = [] then [] else [(''container_name'', PStr n)])"

definition query_cosmos_db :: "runtime \<Rightarrow> server \<Rightarrow> string \<Rightarrow> pyval effect" where
  "query_cosmos_db rt srv query = call_mcp_tool rt srv ''query_cosmos'' (Some [(''query'', PStr query)])"

definition list_containers :: "runtime \<Rightarrow> server \<Rightarrow> pyval effect" where
  "list_containers rt srv = call_mcp_tool rt srv ''list_collections'' None"

definition describe_container :: "runtime \<Rightarrow> server \<Rightarrow> string option \<Rightarrow> pyval effect" where
  "describe_container rt srv container_name =
     call_mcp_tool rt srv ''describe_container'' (Some (container_args container_name))"

definition get_sample_documents :: "runtime \<Rightarrow> server \<Rightarrow> string option \<Rightarrow> int \<Rightarrow> pyval effect" where
  "get_sample_documents rt srv container_name limit =
     call_mcp_tool rt srv ''get_sample_documents''
       (Some (container_args container_name @ (if limit \<noteq> 5 then [(''limit'', PInt limit)] else [])))"

definition count_documents :: "runtime \<Rightarrow> server \<Rightarrow> string option \<Rightarrow> pyval effect" where
  "count_documents rt srv container_name =
     call_mcp_tool rt srv ''count_documents'' (Some (container_args container_name))"

definition get_partition_key_info :: "runtime \<Rightarrow> server \<Rightarrow> string option \<Rightarrow> pyval effect" where
  "get_partition_key_info rt srv container_name =
     call_mcp_tool rt srv ''get_partition_key_info'' (Some (container_args container_name))"

definition get_indexing_policy :: "runtime \<Rightarrow> server \<Rightarrow> string option \<Rightarrow> pyval effect" where
  "get_indexing_policy rt srv container_name =
     call_mcp_tool rt srv ''get_indexing_policy'' (Some (container_args container_name))"

definition find_implied_links :: "runtime \<Rightarrow> server \<Rightarrow> string option \<Rightarrow> pyval effect" where
  "find_implied_links rt srv container_name =
     call_mcp_tool rt srv ''find_implied_links'' (Some (container_args container_name))"

subsection \<open>process_query\<close>

fun word_after_container :: "string list \<Rightarrow> string option" where
  \<comment> \<open>the loop over \<open>enumerate(words)\<close>: the word after the first word that is
      \<open>container\<close> in lower case and has a successor\<close>
  "word_after_container [] = None"
| "word_after_container [w] = None"
| "word_after_container (w # v # ws) =
     (if str_lower w = ''container'' then Some v else word_after_container (v # ws))"

definition reply_with :: "runtime \<Rightarrow> string \<Rightarrow> pyval effect \<Rightarrow> pyval effect" where
  \<comment> \<open>\<open>result = await call; return f"prefix{result}"\<close>\<close>
  "reply_with rt prefix call =
     (case call of
        (sent, Inl e) \<Rightarrow> (sent, Inl e)
      | (sent, Inr result) \<Rightarrow> (sent, Inr (PStr (prefix @ py_str rt result))))"

definition time_query :: string where
  "time_query = ''SELECT * FROM c WHERE c.agent_name = 'TimeAgent' ORDER BY c._ts DESC''"

definition help_head :: string where
  "help_head =
     ''I can help you explore and query the Cosmos DB data using these capabilities:\<newline>'' @
     ''\<newline>'' @
     [CHR 0xF0, CHR 0x9F, CHR 0x94, CHR 0x8D] @ '' **Query Operations:**\<newline>'' @
     ''- Run SQL-like queries: \"SELECT * FROM c WHERE c.agent_name = 'TimeAgent'\"\<newline>'' @
     ''- Find time_agent data: \"Show me time_agent entries\"\<newline>'' @
     ''\<newline>'' @
     [CHR 0xF0, CHR 0x9F, CHR 0x93, CHR 0x8B] @ '' **Data Exploration:**\<newline>'' @
     ''- List containers: \"Show me all containers\"\<newline>'' @
     ''- Describe schema: \"Describe the actions container\"\<newline>'' @
     ''- Get samples: \"Show me sample documents from actions\"\<newline>'' @
     ''- Count documents: \"How many documents are in actions?\"\<newline>'' @
     ''\<newline>'' @
     [CHR 0xF0, CHR 0x9F, CHR 0x94, CHR 0xA7] @ '' **Technical Info:**\<newline>'' @
     ''- Partition keys: \"Show partition key info for actions\"\<newline>'' @
     ''- Indexing policies: \"Show indexing policy\"\<newline>'' @
     ''- Relationships: \"Find relationships in the data\"\<newline>'' @
     ''\<newline>'' @
     ''Your query: \"''"

definition help_tail :: string where
  "help_tail =
     ''\"\<newline>'' @
     ''\<newline>'' @
     ''What would you like to explore? You can ask for any of the above operations or run direct SQL queries.''"

definition handle_general_query :: "string \<Rightarrow> pyval effect" where
  \<comment> \<open>the help text, with the query in it; the three pictographs are their UTF-8 bytes\<close>
  "handle_general_query query = ([], Inr (PStr (help_head @ query @ help_tail)))"

definition sample_limit :: "runtime \<Rightarrow> string \<Rightarrow> py_exc + int" where
  \<comment> \<open>\<open>limit = 5; numbers = re.findall(r'\d+', query);
      if numbers: limit = min(int(numbers[0]), 10)\<close>\<close>
  "sample_limit rt query =
     (let limit = 5;
          numbers = findall_digits query
      in case numbers of
           [] \<Rightarrow> Inr limit
         | n # ns \<Rightarrow> then_do (int_of_digits rt n) (\<lambda>v. Inr (min v 10)))"

definition process_query_body :: "runtime \<Rightarrow> server \<Rightarrow> string \<Rightarrow> pyval effect" where
  \<comment> \<open>the \<open>try\<close> block of \<open>process_query\<close>; a branch that ends without \<open>return\<close> gives \<open>None\<close>\<close>
  "process_query_body rt srv query =
     (let query_lower = str_lower query in
      if any_word_in [''list'', ''show'', ''containers'', ''collections'', ''databases''] query_lower then
        (if str_contains ''container'' query_lower \<or> str_contains ''collection'' query_lower then
           reply_with rt ''Available containers in the database:\<newline>'' (list_containers rt srv)
         else ([], Inr PNone))
      else if any_word_in [''describe'', ''schema'', ''structure'', ''fields''] query_lower then
        (let container_name =
               (if str_contains ''actions'' query_lower then Some ''actions''
                else if str_contains ''container'' query_lower then word_after_container (str_split query)
                else None)
         in reply_with rt ''Container schema information:\<newline>'' (describe_container rt srv container_name))
      else if any_word_in [''sample'', ''example'', ''preview'', ''show me''] query_lower then
        (let container_name = (if str_contains ''actions'' query_lower then Some ''actions'' else None)
         in case sample_limit rt query of
              Inl e \<Rightarrow> ([], Inl e)
            | Inr limit \<Rightarrow>
                reply_with rt ''Sample documents:\<newline>'' (get_sample_documents rt srv container_name limit))
      else if any_word_in [''count'', ''how many'', ''number of''] query_lower then
        (let container_name = (if str_contains ''actions'' query_lower then Some ''actions'' else None)
         in reply_with rt ''Document count:\<newline>'' (count_documents rt srv container_name))
      else if any_word_in [''partition'', ''partitioning'', ''partition key''] query_lower then
        (let container_name = (if str_contains ''actions'' query_lower then Some ''actions'' else None)
         in reply_with rt ''Partition key information:\<newline>'' (get_partition_key_info rt srv container_name))
      else if any_word_in [''index'', ''indexing'', ''policy''] query_lower then
        (let container_name = (if str_contains ''actions'' query_lower then Some ''actions'' else None)
         in reply_with rt ''Indexing policy:\<newline>'' (get_indexing_policy rt srv container_name))
      else if any_word_in [''relationship'', ''links'', ''foreign key'', ''references''] query_lower then
        (let container_name = (if str_contains ''actions'' query_lower then Some ''actions'' else None)
         in reply_with rt ''Relationship analysis:\<newline>'' (find_implied_links rt srv container_name))
      else if str_contains ''select'' query_lower \<or> str_contains ''from'' query_lower then
        reply_with rt ''Query results:\<newline>'' (query_cosmos_db rt srv query)
      else if any_word_in [''time_agent'', ''timeagent'', ''time agent''] query_lower then
        reply_with rt ''Time Agent data:\<newline>'' (query_cosmos_db rt srv time_query)
      else handle_general_query query)"

definition process_query :: "runtime \<Rightarrow> server \<Rightarrow> string \<Rightarrow> pyval effect" where
  \<comment> \<open>\<open>except Exception as e: return f"Sorry, ...: {str(e)}"\<close> around the body\<close>
  "process_query rt srv query =
     (case process_query_body rt srv query of
        (sent, Inl e) \<Rightarrow>
          (sent, Inr (PStr (''Sorry, I encountered an error while processing your query: '' @ exc_str rt e)))
      | (sent, Inr v) \<Rightarrow> (sent, Inr v))"

subsection \<open>initialize\<close>

text \<open>
  The agent's configuration is read from the environment. Of the log, only what
  \<open>initialize\<close> and \<open>_test_mcp_connection\<close> write is modelled. \<open>health\<close> is what the
  \<open>GET\<close> of the health URL leads to.
\<close>

record agent_config =
  mcp_server_url :: string
  cosmos_database :: string
  cosmos_container :: string

datatype log_entry =
    Log_info string
  | Log_warning string
  | Log_error string

definition check_mark :: string where
  \<comment> \<open>U+2705, in UTF-8\<close>
  "check_mark = [CHR 0xE2, CHR 0x9C, CHR 0x85]"

definition test_mcp_connection :: "runtime \<Rightarrow> http_outcome \<Rightarrow> log_entry list \<times> (py_exc + unit)" where
  "test_mcp_connection rt health =
     (case health of
        Raises e \<Rightarrow>
          ([Log_warning (''Could not test MCP server health endpoint: '' @ exc_str rt e)], Inr ())
      | Responds response \<Rightarrow>
          if status_code response = 200 then
            ([Log_info (check_mark @ '' MCP server is reachable'')], Inr ())
          else
            ([Log_warning (''MCP server returned status '' @ str_of_nat (status_code response))], Inr ()))"

definition initialize ::
  "runtime \<Rightarrow> agent_config \<Rightarrow> http_outcome \<Rightarrow> log_entry list \<times> (py_exc + bool)" where
  "initialize rt cfg health =
     (let log =
            [Log_info ''Initializing Cosmos Query Agent with MCP server'',
             Log_info (''MCP Server URL: '' @ mcp_server_url cfg),
             Log_info (''Target Database: '' @ cosmos_database cfg),
             Log_info (''Default Container: '' @ cosmos_container cfg)]
      in case test_mcp_connection rt health of
           (log', Inl e) \<Rightarrow>
             (log @ log' @ [Log_error (''Failed to initialize Cosmos Query Agent: '' @ exc_str rt e)],
              Inr False)
         | (log', Inr u) \<Rightarrow>
             (log @ log' @ [Log_info (check_mark @ '' Cosmos Query Agent initialized successfully'')],
              Inr True))"


section \<open>CosmosQueryAgentExecutor\<close>

text \<open>
  The task-event framework (the \<open>a2a\<close> package) is outside the repository. The executor
  reads attributes of its objects, names members of its classes and calls its constructors
  and the queue's method; each of these operations either gives the executor what it
  expects or raises. Which of them raise is the \<open>framework\<close>, a parameter of the model:

  \<^item> \<open>Context_task\<close> is \<open>request_context.task\<close>, \<open>Task_description\<close> and \<open>Task_id\<close> are
    \<open>task.description\<close> and \<open>task.id\<close>;
  \<^item> \<open>Queue_enqueue\<close> is the attribute \<open>event_queue.enqueue\<close>, and \<open>Enqueue_call ev\<close> the awaited
    call of it on the event;
  \<^item> \<open>Status_member\<close> and \<open>State_member\<close> are \<open>TaskStatus.X\<close> and \<open>TaskState.X\<close>;
  \<^item> \<open>New_status_event\<close>, \<open>New_artifact_event\<close> and \<open>New_text_artifact\<close> are the calls of
    \<open>TaskStatusUpdateEvent\<close>, \<open>TaskArtifactUpdateEvent\<close> and \<open>new_text_artifact\<close> with the keyword
    arguments the executor passes.

  An operation has the same outcome each time it is performed. An \<open>enqueue\<close> that returns
  has appended the event; one that raises has appended nothing. The executor's own log is
  not modelled.
\<close>

record task =
  task_id :: string
  description :: string

datatype task_status = Status_IN_PROGRESS | Status_COMPLETED | Status_FAILED

datatype task_state = State_RUNNING | State_COMPLETED | State_FAILED

record text_artifact =
  artifact_task_id :: string
  content :: pyval
  title :: string

datatype event =
    TaskStatusUpdateEvent (event_task_id: string) (event_status: task_status) (event_state: task_state)
      (event_message: string)
  | TaskArtifactUpdateEvent (event_task_id: string) (event_artifact: text_artifact)

datatype a2a_operation =
    Context_task
  | Task_description
  | Task_id
  | Queue_enqueue
  | Status_member task_status
  | State_member task_state
  | New_status_event
  | New_artifact_event
  | New_text_artifact
  | Enqueue_call event

type_synonym framework = "a2a_operation \<Rightarrow> py_exc option"

fun first_raise :: "framework \<Rightarrow> a2a_operation list \<Rightarrow> py_exc option" where
  \<comment> \<open>the operations are performed in order; the first that raises ends them\<close>
  "first_raise fw [] = None"
| "first_raise fw (c # cs) = (case fw c of Some e \<Rightarrow> Some e | None \<Rightarrow> first_raise fw cs)"

definition enqueue ::
  "framework \<Rightarrow> a2a_operation list \<Rightarrow> event \<Rightarrow> event list \<Rightarrow> event list \<times> (py_exc + unit)" where
  \<comment> \<open>\<open>await event_queue.enqueue(Event(...))\<close>: the attribute \<open>enqueue\<close>, the operations that
      build the event, the call\<close>
  "enqueue fw building ev queue =
     (case first_raise fw (Queue_enqueue # building @ [Enqueue_call ev]) of
        Some e \<Rightarrow> (queue, Inl e)
      | None \<Rightarrow> (queue @ [ev], Inr ()))"

definition enqueue_status ::
  "framework \<Rightarrow> task \<Rightarrow> task_status \<Rightarrow> task_state \<Rightarrow> string \<Rightarrow> event list
     \<Rightarrow> event list \<times> (py_exc + unit)" where
  \<comment> \<open>\<open>TaskStatusUpdateEvent(task_id=task.id, status=TaskStatus.X, state=TaskState.Y, message=...)\<close>\<close>
  "enqueue_status fw task st state msg queue =
     enqueue fw [Task_id, Status_member st, State_member state, New_status_event]
       (TaskStatusUpdateEvent (task_id task) st state msg) queue"

definition enqueue_artifact ::
  "framework \<Rightarrow> task \<Rightarrow> text_artifact \<Rightarrow> event list \<Rightarrow> event list \<times> (py_exc + unit)" where
  \<comment> \<open>\<open>TaskArtifactUpdateEvent(task_id=task.id, artifact=...)\<close>\<close>
  "enqueue_artifact fw task artifact queue =
     enqueue fw [Task_id, New_artifact_event] (TaskArtifactUpdateEvent (task_id task) artifact) queue"

definition new_text_artifact :: "framework \<Rightarrow> task \<Rightarrow> pyval \<Rightarrow> string \<Rightarrow> py_exc + text_artifact" where
  \<comment> \<open>\<open>new_text_artifact(task_id=task.id, content=..., title=...)\<close>\<close>
  "new_text_artifact fw task c t =
     (case first_raise fw [Task_id, New_text_artifact] of
        Some e \<Rightarrow> Inl e
      | None \<Rightarrow> Inr \<lparr>artifact_task_id = task_id task, content = c, title = t\<rparr>)"

definition get_task :: "framework \<Rightarrow> task \<Rightarrow> py_exc + task" where
  \<comment> \<open>\<open>request_context.task\<close>, for a context that holds the task\<close>
  "get_task fw context_task = (case fw Context_task of Some e \<Rightarrow> Inl e | None \<Rightarrow> Inr context_task)"

text \<open>
  The executor holds an agent and calls two of its methods. \<open>execute_with\<close> is \<open>execute\<close>
  for any behaviour of these two; \<open>execute\<close> is the executor as constructed, with a
  \<open>CosmosQueryAgent\<close>.
\<close>

record agent =
  agent_initialize :: "py_exc + bool"
  agent_process_query :: "string \<Rightarrow> py_exc + pyval"

definition send_error ::
  "framework \<Rightarrow> task \<Rightarrow> event list \<Rightarrow> string \<Rightarrow> event list \<times> (py_exc + unit)" where
  "send_error fw context_task queue error_message =
     (case get_task fw context_task of
        Inl e \<Rightarrow> (queue, Inl e)
      | Inr task \<Rightarrow>
          (case new_text_artifact fw task
                  (PStr (''Sorry, I encountered an error while querying the Cosmos DB: '' @ error_message))
                  ''Error'' of
             Inl e \<Rightarrow> (queue, Inl e)
           | Inr error_artifact \<Rightarrow>
               (case enqueue_artifact fw task error_artifact queue of
                  (queue, Inl e) \<Rightarrow> (queue, Inl e)
                | (queue, Inr u) \<Rightarrow>
                    enqueue_status fw task Status_FAILED State_FAILED error_message queue)))"

definition execute_task ::
  "runtime \<Rightarrow> framework \<Rightarrow> agent \<Rightarrow> task \<Rightarrow> event list \<Rightarrow> event list \<times> (py_exc + unit)" where
  \<comment> \<open>the \<open>try\<close> block of \<open>execute\<close> from \<open>task = request_context.task\<close> on: the queue where it
      ends, and the exception that ends it, if one does\<close>
  "execute_task rt fw ag context_task queue =
     (case get_task fw context_task of
        Inl e \<Rightarrow> (queue, Inl e)
      | Inr task \<Rightarrow>
          (case fw Task_description of
             Some e \<Rightarrow> (queue, Inl e)
           | None \<Rightarrow>
               (let user_query = description task in
                case enqueue_status fw task Status_IN_PROGRESS State_RUNNING
                       ''Processing Cosmos DB query...'' queue of
                  (queue, Inl e) \<Rightarrow> (queue, Inl e)
                | (queue, Inr u) \<Rightarrow>
                    (case agent_process_query ag user_query of
                       Inl e \<Rightarrow> (queue, Inl e)
                     | Inr response \<Rightarrow>
                         (case new_text_artifact fw task response ''Cosmos DB Query Result'' of
                            Inl e \<Rightarrow> (queue, Inl e)
                          | Inr text_artifact \<Rightarrow>
                              (case enqueue_artifact fw task text_artifact queue of
                                 (queue, Inl e) \<Rightarrow> (queue, Inl e)
                               | (queue, Inr u) \<Rightarrow>
                                   enqueue_status fw task Status_COMPLETED State_COMPLETED
                                     ''Cosmos DB query completed successfully'' queue))))))"

definition try_block ::
  "runtime \<Rightarrow> framework \<Rightarrow> agent \<Rightarrow> bool \<Rightarrow> task \<Rightarrow> event list
     \<Rightarrow> event list \<times> bool \<times> (py_exc + unit)" where
  \<comment> \<open>the whole \<open>try\<close> block: the queue and \<open>self._initialized\<close> where it ends, and the
      exception that ends it, if one does\<close>
  "try_block rt fw ag initialized context_task queue =
     (if \<not> initialized then
        (case agent_initialize ag of
           Inl e \<Rightarrow> (queue, initialized, Inl e)
         | Inr success \<Rightarrow>
             if \<not> success then
               (case send_error fw context_task queue ''Failed to initialize Cosmos Query Agent'' of
                  (queue, r) \<Rightarrow> (queue, initialized, r))
             else
               (case execute_task rt fw ag context_task queue of (queue, r) \<Rightarrow> (queue, True, r)))
      else (case execute_task rt fw ag context_task queue of (queue, r) \<Rightarrow> (queue, initialized, r)))"

definition handler ::
  "runtime \<Rightarrow> framework \<Rightarrow> task \<Rightarrow> event list \<times> bool \<times> (py_exc + unit)
     \<Rightarrow> event list \<times> bool \<times> py_exc option" where
  \<comment> \<open>\<open>except Exception as e\<close> around the \<open>try\<close> block: an exception that \<open>_send_error\<close> raises
      there leaves \<open>execute\<close>\<close>
  "handler rt fw context_task tried =
     (case tried of
        (queue, initialized, Inr u) \<Rightarrow> (queue, initialized, None)
      | (queue, initialized, Inl e) \<Rightarrow>
          (case send_error fw context_task queue
                  (''Error executing Cosmos Query Agent task: '' @ exc_str rt e) of
             (queue, Inr u) \<Rightarrow> (queue, initialized, None)
           | (queue, Inl e') \<Rightarrow> (queue, initialized, Some e')))"

definition execute_with ::
  "runtime \<Rightarrow> framework \<Rightarrow> agent \<Rightarrow> bool \<Rightarrow> task \<Rightarrow> event list
     \<Rightarrow> event list \<times> bool \<times> py_exc option" where
  \<comment> \<open>the events in the queue afterwards, \<open>self._initialized\<close> afterwards, and the exception
      that leaves \<open>execute\<close>, if one does\<close>
  "execute_with rt fw ag initialized context_task queue =
     handler rt fw context_task (try_block rt fw ag initialized context_task queue)"

definition cosmos_agent :: "runtime \<Rightarrow> agent_config \<Rightarrow> server \<Rightarrow> http_outcome \<Rightarrow> agent" where
  "cosmos_agent rt cfg srv health =
     \<lparr>agent_initialize = snd (initialize rt cfg health),
      agent_process_query = (\<lambda>query. snd (process_query rt srv query))\<rparr>"

definition execute ::
  "runtime \<Rightarrow> framework \<Rightarrow> agent_config \<Rightarrow> server \<Rightarrow> http_outcome \<Rightarrow> bool \<Rightarrow> task \<Rightarrow> event list
     \<Rightarrow> event list \<times> bool \<times> py_exc option" where
  "execute rt fw cfg srv health = execute_with rt fw (cosmos_agent rt cfg srv health)"


text \<open>What a run added to the queue, and the events the executor builds.\<close>

definition enqueued :: "event list \<Rightarrow> event list \<times> bool \<times> py_exc option \<Rightarrow> event list" where
  "enqueued queue result = drop (length queue) (fst result)"

definition is_failed_status :: "event \<Rightarrow> bool" where
  "is_failed_status ev =
     (case ev of
        TaskStatusUpdateEvent tid st state msg \<Rightarrow> st = Status_FAILED
      | TaskArtifactUpdateEvent tid a \<Rightarrow> False)"

definition error_events :: "task \<Rightarrow> string \<Rightarrow> event list" where
  \<comment> \<open>the two events of \<open>_send_error\<close>\<close>
  "error_events task error_message =
     [TaskArtifactUpdateEvent (task_id task)
        \<lparr>artifact_task_id = task_id task,
         content = PStr (''Sorry, I encountered an error while querying the Cosmos DB: '' @ error_message),
         title = ''Error''\<rparr>,
      TaskStatusUpdateEvent (task_id task) Status_FAILED State_FAILED error_message]"

definition in_progress_event :: "task \<Rightarrow> event" where
  "in_progress_event task =
     TaskStatusUpdateEvent (task_id task) Status_IN_PROGRESS State_RUNNING
       ''Processing Cosmos DB query...''"

definition success_events :: "task \<Rightarrow> pyval \<Rightarrow> event list" where
  \<comment> \<open>the three events of a run that reaches the end of the \<open>try\<close> block\<close>
  "success_events task response =
     [in_progress_event task,
      TaskArtifactUpdateEvent (task_id task)
        \<lparr>artifact_task_id = task_id task, content = response, title = ''Cosmos DB Query Result''\<rparr>,
      TaskStatusUpdateEvent (task_id task) Status_COMPLETED State_COMPLETED
        ''Cosmos DB query completed successfully'']"

definition complete_framework :: framework where
  \<comment> \<open>a framework that has every attribute, member and keyword argument the executor uses\<close>
  "complete_framework c = None"

definition a2a_request_context :: framework where
  \<comment> \<open>a framework whose request context has no attribute \<open>task\<close> (the sibling executor reads
      \<open>context.current_task\<close>), every other operation taken to succeed\<close>
  "a2a_request_context c = (case c of Context_task \<Rightarrow> Some AttributeError | _ \<Rightarrow> None)"


section \<open>test_mcp_complete\<close>

text \<open>
  The script sends an \<open>initialize\<close> request and then \<open>tools/list\<close> requests that carry the
  session ID under a header name. The model gives the requests the script sends, in
  order. What it prints and what it returns are not modelled: after a successful
  \<open>tools/list\<close> response every path through the parsing code (\<open>return tools\<close>, \<open>break\<close>, or
  an exception, which the outer handler catches) ends the script with no further request.
\<close>

datatype request =
    Initialize
  | Tools_list (request_header: string) (request_session: string)

definition py_or :: "string option \<Rightarrow> string option \<Rightarrow> string option" where
  \<comment> \<open>\<open>a or b\<close> for values that are \<open>None\<close> or a string: \<open>None\<close> and \<open>''\<close> are false\<close>
  "py_or a b = (case a of None \<Rightarrow> b | Some x \<Rightarrow> if x = [] then b else a)"

definition extract_session_id :: "response \<Rightarrow> string option" where
  \<comment> \<open>\<open>response.headers.get('mcp-session-id') or response.headers.get('x-session-id')\<close>\<close>
  "extract_session_id response =
     py_or (map_of (headers response) ''mcp-session-id'') (map_of (headers response) ''x-session-id'')"

definition tools_list_success :: "response \<Rightarrow> bool" where
  \<comment> \<open>\<open>tools_response.status_code == 200 and "error" not in tools_response.text\<close>\<close>
  "tools_list_success response =
     (status_code response = 200 \<and> \<not> str_contains ''error'' (body_text response))"

fun list_tools :: "(request \<Rightarrow> http_outcome) \<Rightarrow> string \<Rightarrow> string list \<Rightarrow> request list" where
  \<comment> \<open>the loop \<open>for header_name in [...]\<close>\<close>
  "list_tools srv session_id [] = []"
| "list_tools srv session_id (header_name # rest) =
     Tools_list header_name session_id #
       (case srv (Tools_list header_name session_id) of
          Raises e \<Rightarrow> []
        | Responds tools_response \<Rightarrow>
            if tools_list_success tools_response then [] else list_tools srv session_id rest)"

definition test_mcp_complete :: "(request \<Rightarrow> http_outcome) \<Rightarrow> request list" where
  "test_mcp_complete srv =
     Initialize #
       (case srv Initialize of
          Raises e \<Rightarrow> []
        | Responds response \<Rightarrow>
            (case extract_session_id response of
               None \<Rightarrow> []
             | Some session_id \<Rightarrow>
                 if session_id = [] then []
                 else list_tools srv session_id [''mcp-session-id'', ''x-session-id'']))"

definition session_id_by_presence :: "response \<Rightarrow> string option" where
  \<comment> \<open>the value of \<open>mcp-session-id\<close> if that header is present, otherwise the value of
      \<open>x-session-id\<close>: what the extraction is compared with\<close>
  "session_id_by_presence response =
     (case map_of (headers response) ''mcp-session-id'' of
        Some v \<Rightarrow> Some v
      | None \<Rightarrow> map_of (headers response) ''x-session-id'')"


section \<open>SemanticKernelMCPAgentExecutor\<close>

text \<open>
  The agent and the framework are outside the sources. The agent's \<open>stream(query,
  context_id)\<close> is given by the partials it yields and by how it ends: exhausted
  (\<open>None\<close>) or with an exception. \<open>initialize_playwright\<close> is given by the exception it
  raises, if any, and \<open>new_task(context.message)\<close> by the task it returns. An event is
  the class with the keyword arguments the executor passes. \<open>enqueue_event\<close> appends the
  event and returns.
\<close>

record sk_task =
  sk_id :: string
  context_id :: string

record request_context =
  user_input :: string
  current_task :: "sk_task option"
  new_task :: sk_task

datatype sk_state = Sk_failed | Sk_input_required | Sk_completed | Sk_working

record agent_text_message =
  message_text :: pyval
  message_context_id :: "string option"
  message_task_id :: "string option"

record sk_artifact =
  artifact_name :: string
  artifact_description :: string
  artifact_text :: pyval

datatype sk_event =
    Task_created sk_task
  | Status_update (update_state: sk_state) (update_message: "agent_text_message option")
      (update_final: bool) (update_context_id: string) (update_task_id: string)
  | Artifact_update (update_append: bool) (artifact_context_id: string) (update_artifact_task_id: string)
      (update_last_chunk: bool) (update_artifact: sk_artifact)

type_synonym stream = "pyval list \<times> py_exc option"

definition py_truthy :: "pyval \<Rightarrow> bool" where
  \<comment> \<open>the truth value of \<open>v\<close> in \<open>if v:\<close>\<close>
  "py_truthy v =
     (case v of
        PNone \<Rightarrow> False
      | PBool b \<Rightarrow> b
      | PInt i \<Rightarrow> i \<noteq> 0
      | PFloat r \<Rightarrow> r \<noteq> 0
      | PStr s \<Rightarrow> s \<noteq> []
      | PList xs \<Rightarrow> xs \<noteq> []
      | PDict d \<Rightarrow> d \<noteq> [])"

definition ensure_task :: "request_context \<Rightarrow> sk_event list \<Rightarrow> sk_task \<times> sk_event list" where
  \<comment> \<open>\<open>task = context.current_task; if not task: task = new_task(...); enqueue_event(task)\<close>\<close>
  "ensure_task context queue =
     (case current_task context of
        None \<Rightarrow> (new_task context, queue @ [Task_created (new_task context)])
      | Some task \<Rightarrow> (task, queue))"

fun consume :: "pyval list \<Rightarrow> (pyval \<times> pyval \<times> pyval) option \<Rightarrow> py_exc + (pyval \<times> pyval \<times> pyval) option" where
  \<comment> \<open>the body of \<open>async for partial in ...\<close> over the partials yielded; the second
      argument is \<open>(require_input, is_done, text_content)\<close>, \<open>None\<close> while they are unbound\<close>
  "consume [] vars = Inr vars"
| "consume (partial # rest) vars =
     (case py_getitem partial ''require_user_input'' of
        Inl e \<Rightarrow> Inl e
      | Inr require_input \<Rightarrow>
          (case py_getitem partial ''is_task_complete'' of
             Inl e \<Rightarrow> Inl e
           | Inr is_done \<Rightarrow>
               (case py_getitem partial ''content'' of
                  Inl e \<Rightarrow> Inl e
                | Inr text_content \<Rightarrow> consume rest (Some (require_input, is_done, text_content)))))"

definition run_stream :: "stream \<Rightarrow> py_exc + (pyval \<times> pyval \<times> pyval) option" where
  \<comment> \<open>the whole loop: the partials, then the end of the stream\<close>
  "run_stream s =
     (case consume (fst s) None of
        Inl e \<Rightarrow> Inl e
      | Inr vars \<Rightarrow> (case snd s of Some e \<Rightarrow> Inl e | None \<Rightarrow> Inr vars))"

text \<open>
  \<open>TaskStatusUpdateEvent\<close> is declared in the \<open>a2a\<close> package, as a model whose constructor
  validates its arguments: \<open>final\<close> and \<open>context_id\<close> are required fields, as \<open>task_id\<close> and
  \<open>status\<close> are, and every construction in the \<open>try\<close> block passes them. A call that omits
  one raises the validation error and builds no event.
\<close>

definition status_update_event ::
  "sk_state \<Rightarrow> agent_text_message option \<Rightarrow> bool option \<Rightarrow> string option \<Rightarrow> string
     \<Rightarrow> py_exc + sk_event" where
  \<comment> \<open>\<open>TaskStatusUpdateEvent(status=TaskStatus(state=..., message=...), final=...,
      context_id=..., task_id=...)\<close>; an argument the call leaves out is \<open>None\<close>\<close>
  "status_update_event state msg final ctx tid =
     (case final of
        None \<Rightarrow> Inl ValidationError
      | Some f \<Rightarrow>
          (case ctx of
             None \<Rightarrow> Inl ValidationError
           | Some c \<Rightarrow> Inr (Status_update state msg f c tid)))"

definition enqueue_status_update ::
  "sk_state \<Rightarrow> agent_text_message option \<Rightarrow> bool option \<Rightarrow> string option \<Rightarrow> string
     \<Rightarrow> sk_event list \<Rightarrow> sk_event list \<times> (py_exc + unit)" where
  \<comment> \<open>\<open>await event_queue.enqueue_event(TaskStatusUpdateEvent(...))\<close>\<close>
  "enqueue_status_update state msg final ctx tid queue =
     (case status_update_event state msg final ctx tid of
        Inl e \<Rightarrow> (queue, Inl e)
      | Inr ev \<Rightarrow> (queue @ [ev], Inr ()))"

definition failed_status ::
  "string \<Rightarrow> sk_task \<Rightarrow> sk_event list \<Rightarrow> sk_event list \<times> (py_exc + unit)" where
  \<comment> \<open>what both handlers do: \<open>enqueue_event(TaskStatusUpdateEvent(status=TaskStatus(
      state=TaskState.failed, message=new_agent_text_message(text)), task_id=task.id))\<close>\<close>
  "failed_status text task queue =
     enqueue_status_update Sk_failed
       (Some \<lparr>message_text = PStr text, message_context_id = None, message_task_id = None\<rparr>)
       None None (sk_id task) queue"

definition outcome ::
  "sk_task \<Rightarrow> pyval \<times> pyval \<times> pyval \<Rightarrow> sk_event list \<Rightarrow> sk_event list \<times> (py_exc + unit)" where
  \<comment> \<open>the \<open>if require_input: ... elif is_done: ... else: ...\<close> after the loop\<close>
  "outcome task vars queue =
     (case vars of (require_input, is_done, text_content) \<Rightarrow>
        if py_truthy require_input then
          enqueue_status_update Sk_input_required
            (Some \<lparr>message_text = text_content, message_context_id = Some (context_id task),
                   message_task_id = Some (sk_id task)\<rparr>)
            (Some True) (Some (context_id task)) (sk_id task) queue
        else if py_truthy is_done then
          enqueue_status_update Sk_completed None (Some True) (Some (context_id task)) (sk_id task)
            (queue @
               [Artifact_update False (context_id task) (sk_id task) True
                  \<lparr>artifact_name = ''current_result'',
                   artifact_description = ''Result of request to agent.'',
                   artifact_text = text_content\<rparr>])
        else
          enqueue_status_update Sk_working
            (Some \<lparr>message_text = text_content, message_context_id = Some (context_id task),
                   message_task_id = Some (sk_id task)\<rparr>)
            (Some False) (Some (context_id task)) (sk_id task) queue)"

definition sk_try :: "sk_task \<Rightarrow> stream \<Rightarrow> sk_event list \<Rightarrow> sk_event list \<times> (py_exc + unit)" where
  \<comment> \<open>the second \<open>try\<close> block of \<open>execute\<close>: after a loop that read no partial, the three
      variables are unbound and the \<open>if\<close> raises\<close>
  "sk_try task s queue =
     (case run_stream s of
        Inl e \<Rightarrow> (queue, Inl e)
      | Inr None \<Rightarrow> (queue, Inl UnboundLocalError)
      | Inr (Some vars) \<Rightarrow> outcome task vars queue)"

definition sk_run ::
  "runtime \<Rightarrow> sk_task \<Rightarrow> stream \<Rightarrow> sk_event list \<Rightarrow> sk_event list \<times> py_exc option" where
  \<comment> \<open>the second \<open>try\<close> block with its handler: the queue afterwards, and the exception that
      leaves \<open>execute\<close>, if one does\<close>
  "sk_run rt task s queue =
     (case sk_try task s queue of
        (queue, Inr u) \<Rightarrow> (queue, None)
      | (queue, Inl e) \<Rightarrow>
          (case failed_status (''Playwright agent execution failed: '' @ exc_str rt e) task queue of
             (queue, Inr u) \<Rightarrow> (queue, None)
           | (queue, Inl e') \<Rightarrow> (queue, Some e')))"

definition sk_execute_task ::
  "runtime \<Rightarrow> (string \<Rightarrow> string \<Rightarrow> stream) \<Rightarrow> request_context \<Rightarrow> sk_event list
     \<Rightarrow> sk_event list \<times> py_exc option" where
  \<comment> \<open>\<open>execute\<close> from \<open>query = context.get_user_input()\<close> on\<close>
  "sk_execute_task rt agent_stream context queue =
     (let query = user_input context in
      case ensure_task context queue of (task, queue) \<Rightarrow>
        sk_run rt task (agent_stream query (context_id task)) queue)"

definition sk_execute ::
  "runtime \<Rightarrow> py_exc option \<Rightarrow> (string \<Rightarrow> string \<Rightarrow> stream) \<Rightarrow> bool \<Rightarrow> request_context \<Rightarrow> sk_event list
     \<Rightarrow> sk_event list \<times> bool \<times> py_exc option" where
  \<comment> \<open>the events in the queue afterwards, \<open>self._initialized\<close> afterwards, and the exception
      that leaves \<open>execute\<close>, if one does\<close>
  "sk_execute rt init agent_stream initialized context queue =
     (if \<not> initialized then
        (case init of
           Some e \<Rightarrow>
             (case ensure_task context queue of (task, queue) \<Rightarrow>
                (case failed_status (''Failed to initialize Playwright agent: '' @ exc_str rt e)
                        task queue of
                   (queue, Inr u) \<Rightarrow> (queue, False, None)
                 | (queue, Inl e') \<Rightarrow> (queue, False, Some e')))
         | None \<Rightarrow>
             (case sk_execute_task rt agent_stream context queue of (queue, r) \<Rightarrow> (queue, True, r)))
      else
        (case sk_execute_task rt agent_stream context queue of (queue, r) \<Rightarrow> (queue, initialized, r)))"

definition outcome_events :: "sk_task \<Rightarrow> pyval \<times> pyval \<times> pyval \<Rightarrow> sk_event list" where
  \<comment> \<open>the events of the three branches after the loop\<close>
  "outcome_events task vars =
     (case vars of (require_input, is_done, text_content) \<Rightarrow>
        if py_truthy require_input then
          [Status_update Sk_input_required
             (Some \<lparr>message_text = text_content, message_context_id = Some (context_id task),
                    message_task_id = Some (sk_id task)\<rparr>)
             True (context_id task) (sk_id task)]
        else if py_truthy is_done then
          [Artifact_update False (context_id task) (sk_id task) True
             \<lparr>artifact_name = ''current_result'',
              artifact_description = ''Result of request to agent.'',
              artifact_text = text_content\<rparr>,
           Status_update Sk_completed None True (context_id task) (sk_id task)]
        else
          [Status_update Sk_working
             (Some \<lparr>message_text = text_content, message_context_id = Some (context_id task),
                    message_task_id = Some (sk_id task)\<rparr>)
             False (context_id task) (sk_id task)])"


section \<open>The routing as a table, and the limit as a formula\<close>

text \<open>
  The keyword groups of \<open>process_query\<close> in the order of its \<open>if\<close>/\<open>elif\<close> chain, each with
  the MCP tool its branch calls; \<open>routed_tools\<close> is what routing by the first matching
  group alone would call. They are what the dispatch of \<open>process_query\<close> is compared with.
\<close>

definition routing_table :: "(string list \<times> string) list" where
  "routing_table =
     [([''list'', ''show'', ''containers'', ''collections'', ''databases''], ''list_collections''),
      ([''describe'', ''schema'', ''structure'', ''fields''], ''describe_container''),
      ([''sample'', ''example'', ''preview'', ''show me''], ''get_sample_documents''),
      ([''count'', ''how many'', ''number of''], ''count_documents''),
      ([''partition'', ''partitioning'', ''partition key''], ''get_partition_key_info''),
      ([''index'', ''indexing'', ''policy''], ''get_indexing_policy''),
      ([''relationship'', ''links'', ''foreign key'', ''references''], ''find_implied_links''),
      ([''select'', ''from''], ''query_cosmos''),
      ([''time_agent'', ''timeagent'', ''time agent''], ''query_cosmos'')]"

definition first_matching_group :: "string \<Rightarrow> (string list \<times> string) option" where
  "first_matching_group query =
     find (\<lambda>entry. any_word_in (fst entry) (str_lower query)) routing_table"

definition routed_tools :: "string \<Rightarrow> string list" where
  "routed_tools query = (case first_matching_group query of None \<Rightarrow> [] | Some entry \<Rightarrow> [snd entry])"

definition list_guard :: "string \<Rightarrow> bool" where
  \<comment> \<open>the inner test of the first branch\<close>
  "list_guard query =
     (str_contains ''container'' (str_lower query) \<or> str_contains ''collection'' (str_lower query))"

definition first_digit_run :: "string \<Rightarrow> string" where
  \<comment> \<open>the first maximal run of digits of a string (empty when it has no digit)\<close>
  "first_digit_run s = takeWhile is_digit (dropWhile (\<lambda>c. \<not> is_digit c) s)"

definition digits_convert :: "runtime \<Rightarrow> string \<Rightarrow> bool" where
  \<comment> \<open>\<open>int()\<close> accepts the first run of digits: the runtime has no limit, or the run is within it\<close>
  "digits_convert rt s = (max_str_digits rt = 0 \<or> length (first_digit_run s) \<le> max_str_digits rt)"

definition capped_limit :: "string \<Rightarrow> int" where
  \<comment> \<open>\<open>min\<close> of the first run of digits and 10, or 5 for a query with no digit\<close>
  "capped_limit query =
     (if list_ex is_digit query then min (int (nat_of_digits (first_digit_run query))) 10 else 5)"

definition limit_within :: "int \<Rightarrow> tool_call \<Rightarrow> bool" where
  \<comment> \<open>the request carries no \<open>limit\<close> argument, or an integer that is at most the bound\<close>
  "limit_within bound call =
     (case map_of (snd call) ''limit'' of
        None \<Rightarrow> True
      | Some v \<Rightarrow> (case v of PInt l \<Rightarrow> l \<le> bound | _ \<Rightarrow> False))"


section \<open>Example values\<close>

definition sample_rt :: runtime where
  "sample_rt =
     \<lparr>exc_message = (\<lambda>e. case e of IndexError \<Rightarrow> ''list index out of range'' | _ \<Rightarrow> ''error''),
      repr_value = (\<lambda>v. ''<object>''),
      max_str_digits = 640\<rparr>"

definition sample_cfg :: agent_config where
  "sample_cfg =
     \<lparr>mcp_server_url = ''http://127.0.0.1:8080/mcp'',
      cosmos_database = ''playwright_logs'',
      cosmos_container = ''actions''\<rparr>"

definition sample_task :: task where
  "sample_task = \<lparr>task_id = ''task-1'', description = ''SELECT * FROM c''\<rparr>"

definition plain_response :: "nat \<Rightarrow> (string \<times> string) list \<Rightarrow> string \<Rightarrow> response" where
  \<comment> \<open>a response whose body is not JSON\<close>
  "plain_response code hs text =
     \<lparr>status_code = code, headers = hs, body_text = text, body_json = Inl ValueError\<rparr>"

definition empty_header_server :: "request \<Rightarrow> http_outcome" where
  \<comment> \<open>answers \<open>initialize\<close> with an empty \<open>mcp-session-id\<close> and a non-empty \<open>x-session-id\<close>\<close>
  "empty_header_server req =
     (case req of
        Initialize \<Rightarrow>
          Responds (plain_response 200 [(''mcp-session-id'', []), (''x-session-id'', ''abc'')] [])
      | Tools_list header_name session_id \<Rightarrow> Responds (plain_response 200 [] ''event: message''))"

definition raising_server :: "request \<Rightarrow> http_outcome" where
  \<comment> \<open>gives a session ID and then fails every \<open>tools/list\<close> request with an exception\<close>
  "raising_server req =
     (case req of
        Initialize \<Rightarrow> Responds (plain_response 200 [(''mcp-session-id'', ''abc'')] [])
      | Tools_list header_name session_id \<Rightarrow> Raises (External ''timed out''))"

definition x_session_server :: "request \<Rightarrow> http_outcome" where
  \<comment> \<open>gives a session ID and accepts it under \<open>x-session-id\<close> only\<close>
  "x_session_server req =
     (case req of
        Initialize \<Rightarrow> Responds (plain_response 200 [(''mcp-session-id'', ''s1'')] [])
      | Tools_list header_name session_id \<Rightarrow>
          if header_name = ''x-session-id'' then Responds (plain_response 200 [] ''event: message'')
          else Responds (plain_response 400 [] ''Bad Request''))"

definition sample_sk_task :: sk_task where
  "sample_sk_task = \<lparr>sk_id = ''t1'', context_id = ''c1''\<rparr>"

definition sample_request :: request_context where
  \<comment> \<open>a request that has no task yet\<close>
  "sample_request =
     \<lparr>user_input = ''open example.com'', current_task = None, new_task = sample_sk_task\<rparr>"

definition empty_stream :: "string \<Rightarrow> string \<Rightarrow> stream" where
  \<comment> \<open>an agent whose stream ends without a partial\<close>
  "empty_stream query ctx = ([], None)"

definition sample_partial :: "bool \<Rightarrow> bool \<Rightarrow> string \<Rightarrow> pyval" where
  \<comment> \<open>a partial with the three keys the loop reads\<close>
  "sample_partial require_input is_done text =
     PDict [(''is_task_complete'', PBool is_done), (''require_user_input'', PBool require_input),
            (''content'', PStr text)]"

definition json_response :: "pyval \<Rightarrow> http_outcome" where
  \<comment> \<open>a response with status 200 whose body decodes to the given value\<close>
  "json_response v = Responds \<lparr>status_code = 200, headers = [], body_text = [], body_json = Inr v\<rparr>"

definition text_result :: "string \<Rightarrow> pyval" where
  \<comment> \<open>the JSON-RPC result of a tool that returns one text item\<close>
  "text_result s =
     PDict [(''jsonrpc'', PStr ''2.0''),
            (''result'', PDict [(''content'', PList [PDict [(''type'', PStr ''text''), (''text'', PStr s)]])])]"

definition text_server :: "string \<Rightarrow> server" where
  "text_server s = (\<lambda>call. json_response (text_result s))"


section \<open>Properties of CosmosQueryAgent\<close>

subsection \<open>Helper facts\<close>

lemma fst_call_mcp_tool:
  "fst (call_mcp_tool rt srv tool_name arguments) =
     [(tool_name, case arguments of None \<Rightarrow> [] | Some a \<Rightarrow> a)]"
  by (simp add: call_mcp_tool_def Let_def)

lemma snd_call_mcp_tool_Inr: "\<exists>v. snd (call_mcp_tool rt srv tool_name arguments) = Inr v"
  by (simp add: call_mcp_tool_def Let_def split: sum.split)

lemma reply_with_call:
  "reply_with rt prefix (call_mcp_tool rt srv name a) =
     ([(name, case a of None \<Rightarrow> [] | Some x \<Rightarrow> x)],
      Inr (PStr (prefix @
        py_str rt (case snd (call_mcp_tool rt srv name a) of Inr v \<Rightarrow> v | Inl e \<Rightarrow> PNone))))"
  by (simp add: call_mcp_tool_def reply_with_def Let_def split: sum.split)

lemmas wrapper_defs =
  list_containers_def describe_container_def get_sample_documents_def count_documents_def
  get_partition_key_info_def get_indexing_policy_def find_implied_links_def query_cosmos_db_def

lemma any_word_in_pair: "any_word_in [a, b] s = (str_contains a s \<or> str_contains b s)"
  by (simp add: any_word_in_def)

lemma runs_acc_cur:
  "cur \<noteq> [] \<Longrightarrow> runs_acc P cur s = (rev cur @ takeWhile P s) # runs_acc P [] (dropWhile P s)"
  by (induction s arbitrary: cur) auto

lemma runs_acc_Nil:
  "runs_acc P [] s =
     (if list_ex P s
      then takeWhile P (dropWhile (\<lambda>c. \<not> P c) s) #
           runs_acc P [] (dropWhile P (dropWhile (\<lambda>c. \<not> P c) s))
      else [])"
  by (induction s) (auto simp: runs_acc_cur)

lemma findall_digits_cases:
  "findall_digits s =
     (if list_ex is_digit s
      then first_digit_run s # findall_digits (dropWhile is_digit (dropWhile (\<lambda>c. \<not> is_digit c) s))
      else [])"
  unfolding findall_digits_def first_digit_run_def by (rule runs_acc_Nil)

lemma sample_limit_converts:
  "digits_convert rt q \<Longrightarrow> sample_limit rt q = Inr (capped_limit q)"
  unfolding sample_limit_def Let_def
  by (subst findall_digits_cases)
     (auto simp: capped_limit_def digits_convert_def int_of_digits_def then_do_def)

subsection \<open>Dispatch\<close>

text \<open>
  C2. The claim: for every input string \<open>process_query\<close> returns a text, never \<open>None\<close>.
  The code does not: when the first keyword group matches and the query names no
  container or collection, no branch returns, and the result is \<open>None\<close> with no tool
  called. The query below is one the agent's own help text offers for the indexing
  policy.
\<close>

theorem process_query_returns_None:
  "process_query sample_rt (text_server ''ok'') ''Show indexing policy'' = ([], Inr PNone)"
  by code_simp

text \<open>
  C1, as stated, fails: routing by the first matching keyword group alone would call
  \<open>list_collections\<close> for a query the agent's own test sends; the code calls nothing.
\<close>

theorem process_query_first_group_counterexample:
  "fst (process_query sample_rt (text_server ''ok'') ''Show me time_agent entries'') = []
   \<and> routed_tools ''Show me time_agent entries'' = [''list_collections'']"
  by code_simp

text \<open>
  C1, amended. For every query, provided that a query whose first matching group is the
  list group also passes that branch's inner test (it contains \<open>container\<close> or
  \<open>collection\<close>), and that in the sample branch \<open>int()\<close> converts the first run of digits:
  \<open>process_query\<close> sends exactly one request, to the tool of the first matching keyword
  group, and for a query that matches no group it sends none and returns the help text
  of \<open>_handle_general_query\<close>.
\<close>

theorem process_query_routes:
  assumes "routed_tools q = [''list_collections''] \<Longrightarrow> list_guard q"
    and "routed_tools q = [''get_sample_documents''] \<Longrightarrow> digits_convert rt q"
  shows "map fst (fst (process_query rt srv q)) = routed_tools q
         \<and> (routed_tools q = [] \<longrightarrow>
              process_query rt srv q = ([], Inr (PStr (help_head @ q @ help_tail))))"
  using assms
  by (simp add: process_query_def process_query_body_def routed_tools_def first_matching_group_def
      routing_table_def Let_def reply_with_call wrapper_defs handle_general_query_def list_guard_def
      any_word_in_pair sample_limit_converts split: if_splits)

theorem process_query_routes_witness:
  "routed_tools ''Show me all containers'' = [''list_collections'']
   \<and> list_guard ''Show me all containers''
   \<and> map fst (fst (process_query sample_rt (text_server ''ok'') ''Show me all containers'')) =
       [''list_collections'']
   \<and> routed_tools ''hello'' = []
   \<and> process_query sample_rt (text_server ''ok'') ''hello'' =
       ([], Inr (PStr (help_head @ ''hello'' @ help_tail)))"
proof -
  have r: "routed_tools ''Show me all containers'' = [''list_collections'']"
    by code_simp
  have g: "list_guard ''Show me all containers''"
    by code_simp
  have h: "routed_tools ''hello'' = []"
    by code_simp
  have "map fst (fst (process_query sample_rt (text_server ''ok'') ''Show me all containers'')) =
          routed_tools ''Show me all containers''"
    using process_query_routes [of "''Show me all containers''" sample_rt "text_server ''ok''"] r g
    by simp
  moreover have "process_query sample_rt (text_server ''ok'') ''hello'' =
          ([], Inr (PStr (help_head @ ''hello'' @ help_tail)))"
    using process_query_routes [of "''hello''" sample_rt "text_server ''ok''"] h
    by simp
  ultimately show ?thesis
    using r g h by simp
qed

subsection \<open>The SQL branch\<close>

text \<open>
  C6. For every query that matches none of the seven keyword groups before it and whose
  lower-case form contains \<open>select\<close> or \<open>from\<close>, \<open>process_query\<close> sends one request: the
  tool \<open>query_cosmos\<close> with the original query, unchanged, as its \<open>query\<close> argument; and it
  returns the value \<open>query_cosmos_db\<close> returned, as text, after \<open>Query results:\<close> and a
  newline.
\<close>

theorem select_from_forwards_query:
  assumes "list_all (\<lambda>entry. \<not> any_word_in (fst entry) (str_lower q)) (take 7 routing_table)"
    and "str_contains ''select'' (str_lower q) \<or> str_contains ''from'' (str_lower q)"
  shows "\<exists>v. snd (query_cosmos_db rt srv q) = Inr v
           \<and> process_query rt srv q =
               ([(''query_cosmos'', [(''query'', PStr q)])],
                Inr (PStr (''Query results:\<newline>'' @ py_str rt v)))"
proof -
  obtain v where v: "snd (query_cosmos_db rt srv q) = Inr v"
    using snd_call_mcp_tool_Inr [of rt srv "''query_cosmos''" "Some [(''query'', PStr q)]"]
    by (auto simp: query_cosmos_db_def)
  have "process_query rt srv q =
          ([(''query_cosmos'', [(''query'', PStr q)])],
           Inr (PStr (''Query results:\<newline>'' @ py_str rt v)))"
    using assms v
    by (simp add: process_query_def process_query_body_def routing_table_def Let_def
        reply_with_call query_cosmos_db_def)
  with v show ?thesis by blast
qed

theorem select_from_forwards_query_witness:
  "list_all (\<lambda>entry. \<not> any_word_in (fst entry) (str_lower ''SELECT * FROM c''))
     (take 7 routing_table)
   \<and> str_contains ''select'' (str_lower ''SELECT * FROM c'')
   \<and> process_query sample_rt (text_server ''3 rows'') ''SELECT * FROM c'' =
       ([(''query_cosmos'', [(''query'', PStr ''SELECT * FROM c'')])],
        Inr (PStr ''Query results:\<newline>3 rows''))"
proof -
  have a: "list_all (\<lambda>entry. \<not> any_word_in (fst entry) (str_lower ''SELECT * FROM c''))
     (take 7 routing_table)"
    by code_simp
  have b: "str_contains ''select'' (str_lower ''SELECT * FROM c'')"
    by code_simp
  have c: "snd (query_cosmos_db sample_rt (text_server ''3 rows'') ''SELECT * FROM c'') =
             Inr (PStr ''3 rows'')"
    by code_simp
  from select_from_forwards_query [OF a disjI1 [OF b], of sample_rt "text_server ''3 rows''"] c
  have "process_query sample_rt (text_server ''3 rows'') ''SELECT * FROM c'' =
       ([(''query_cosmos'', [(''query'', PStr ''SELECT * FROM c'')])],
        Inr (PStr (''Query results:\<newline>'' @ py_str sample_rt (PStr ''3 rows''))))"
    by auto
  then show ?thesis
    using a b by (simp add: py_str_def)
qed

subsection \<open>The sample limit\<close>

lemma sample_limit_Inr: "sample_limit rt q = Inr l \<Longrightarrow> l = capped_limit q"
  unfolding sample_limit_def Let_def
  by (subst (asm) findall_digits_cases)
     (auto simp: capped_limit_def int_of_digits_def then_do_def split: if_splits)

lemma capped_limit_le: "capped_limit q \<le> 10"
  by (simp add: capped_limit_def)

lemma limit_within_sample:
  "l \<le> 10 \<Longrightarrow>
   limit_within 10 (''get_sample_documents'',
      container_args cn @ (if l \<noteq> 5 then [(''limit'', PInt l)] else []))"
  by (auto simp: limit_within_def container_args_def split: option.split)

text \<open>
  C9. For every query: every request \<open>process_query\<close> sends to \<open>get_sample_documents\<close>
  carries no \<open>limit\<close> or one that is at most 10. In the sample branch the limit handed to
  \<open>get_sample_documents\<close> is \<open>capped_limit\<close>: the minimum of the first run of digits and 10
  when the query has a digit, and 5 otherwise. (When \<open>int()\<close> refuses the run of digits,
  the branch raises before the call, and no request is sent.)
\<close>

theorem sample_limit_at_most_10:
  "list_all (\<lambda>call. fst call \<noteq> ''get_sample_documents'' \<or> limit_within 10 call)
     (fst (process_query rt srv q))
   \<and> capped_limit q \<le> 10
   \<and> (routed_tools q = [''get_sample_documents''] \<longrightarrow>
        (case sample_limit rt q of
           Inl e \<Rightarrow> fst (process_query rt srv q) = []
         | Inr limit \<Rightarrow>
             limit = capped_limit q \<and>
             process_query_body rt srv q =
               reply_with rt ''Sample documents:\<newline>''
                 (get_sample_documents rt srv
                    (if str_contains ''actions'' (str_lower q) then Some ''actions'' else None) limit)))"
proof (intro conjI)
  show "list_all (\<lambda>call. fst call \<noteq> ''get_sample_documents'' \<or> limit_within 10 call)
     (fst (process_query rt srv q))"
  proof (cases "sample_limit rt q")
    case (Inl e)
    then show ?thesis
      by (simp add: process_query_def process_query_body_def Let_def reply_with_call wrapper_defs
          handle_general_query_def)
  next
    case (Inr l)
    then have "l \<le> 10"
      using sample_limit_Inr capped_limit_le by metis
    then have "limit_within 10 (''get_sample_documents'',
      container_args cn @ (if l \<noteq> 5 then [(''limit'', PInt l)] else []))" for cn
      by (rule limit_within_sample)
    with Inr show ?thesis
      by (simp add: process_query_def process_query_body_def Let_def reply_with_call wrapper_defs
          handle_general_query_def)
  qed
  show "capped_limit q \<le> 10"
    by (rule capped_limit_le)
  show "routed_tools q = [''get_sample_documents''] \<longrightarrow>
        (case sample_limit rt q of
           Inl e \<Rightarrow> fst (process_query rt srv q) = []
         | Inr limit \<Rightarrow>
             limit = capped_limit q \<and>
             process_query_body rt srv q =
               reply_with rt ''Sample documents:\<newline>''
                 (get_sample_documents rt srv
                    (if str_contains ''actions'' (str_lower q) then Some ''actions'' else None) limit))"
    by (auto simp: process_query_def process_query_body_def routed_tools_def first_matching_group_def
        routing_table_def Let_def dest: sample_limit_Inr split: if_splits sum.split)
qed

theorem sample_limit_at_most_10_witness:
  "routed_tools ''preview 25 docs of 3'' = [''get_sample_documents'']
   \<and> capped_limit ''preview 25 docs of 3'' = 10
   \<and> sample_limit sample_rt ''preview 25 docs of 3'' = Inr 10
   \<and> fst (process_query sample_rt (text_server ''ok'') ''preview 25 docs of 3'') =
       [(''get_sample_documents'', [(''limit'', PInt 10)])]
   \<and> list_all (\<lambda>call. fst call \<noteq> ''get_sample_documents'' \<or> limit_within 10 call)
       (fst (process_query sample_rt (text_server ''ok'') ''preview 25 docs of 3''))"
proof -
  have a: "routed_tools ''preview 25 docs of 3'' = [''get_sample_documents'']"
    by code_simp
  have b: "sample_limit sample_rt ''preview 25 docs of 3'' = Inr 10"
    by code_simp
  have c: "fst (process_query sample_rt (text_server ''ok'') ''preview 25 docs of 3'') =
       [(''get_sample_documents'', [(''limit'', PInt 10)])]"
    by code_simp
  from sample_limit_at_most_10 [of sample_rt "text_server ''ok''" "''preview 25 docs of 3''"] a b
  have "capped_limit ''preview 25 docs of 3'' = 10"
    by simp
  moreover from sample_limit_at_most_10 [of sample_rt "text_server ''ok''" "''preview 25 docs of 3''"]
  have "list_all (\<lambda>call. fst call \<noteq> ''get_sample_documents'' \<or> limit_within 10 call)
       (fst (process_query sample_rt (text_server ''ok'') ''preview 25 docs of 3''))"
    by blast
  ultimately show ?thesis
    using a b c by simp
qed

subsection \<open>call_mcp_tool\<close>

lemma snd_call_mcp_tool:
  "snd (call_mcp_tool rt srv name a) =
     (case read_response rt (srv (name, case a of None \<Rightarrow> [] | Some x \<Rightarrow> x)) of
        Inl e \<Rightarrow> Inr (PStr (''Error calling tool: '' @ exc_str rt e))
      | Inr v \<Rightarrow> Inr v)"
  by (simp add: call_mcp_tool_def Let_def)

lemma read_response_Raises: "read_response rt (Raises e) = Inl e"
  by (simp add: read_response_def)

lemma read_response_not_200:
  "status_code r \<noteq> 200 \<Longrightarrow>
   read_response rt (Responds r) =
     Inr (PStr (''HTTP Error '' @ str_of_nat (status_code r) @ '': '' @ body_text r))"
  by (simp add: read_response_def)

lemma read_response_undecodable:
  "status_code r = 200 \<Longrightarrow> body_json r = Inl e \<Longrightarrow> read_response rt (Responds r) = Inl e"
  by (simp add: read_response_def then_do_def)

lemma read_response_result:
  assumes "status_code r = 200" and "body_json r = Inr (PDict d)"
    and "map_of d ''result'' = Some (PDict res)"
    and "(case map_of res ''content'' of None \<Rightarrow> PList [PDict []] | Some c \<Rightarrow> c) = PList (PDict item # rest)"
  shows "read_response rt (Responds r) =
           Inr (case map_of item ''text'' of None \<Rightarrow> PStr ''No result'' | Some t \<Rightarrow> t)"
  using assms by (simp add: read_response_def read_result_def then_do_def first_content_text_def)

lemma read_response_empty_content:
  assumes "status_code r = 200" and "body_json r = Inr (PDict d)"
    and "map_of d ''result'' = Some (PDict res)"
    and "map_of res ''content'' = Some (PList [])"
  shows "read_response rt (Responds r) = Inl IndexError"
  using assms by (simp add: read_response_def read_result_def then_do_def first_content_text_def)

lemma read_response_error:
  assumes "status_code r = 200" and "body_json r = Inr (PDict d)"
    and "map_of d ''result'' = None" and "map_of d ''error'' = Some (PDict err)"
  shows "read_response rt (Responds r) =
           Inr (PStr (''Error: '' @
             py_str rt (case map_of err ''message'' of None \<Rightarrow> PStr ''Unknown error'' | Some m \<Rightarrow> m)))"
  using assms by (simp add: read_response_def read_result_def then_do_def error_message_text_def)

lemma read_response_unknown:
  assumes "status_code r = 200" and "body_json r = Inr (PDict d)"
    and "map_of d ''result'' = None" and "map_of d ''error'' = None"
  shows "read_response rt (Responds r) = Inr (PStr ''Unknown response format'')"
  using assms by (simp add: read_response_def read_result_def then_do_def)

lemma then_do_Inr: "then_do m f = Inr v \<Longrightarrow> \<exists>x. m = Inr x \<and> f x = Inr v"
  by (cases m) (simp_all add: then_do_def)

lemma error_message_text_is_str: "error_message_text rt result = Inr v \<Longrightarrow> is_str v"
  unfolding error_message_text_def
  by (auto dest!: then_do_Inr simp: is_str_def)

lemma read_result_value:
  "read_result rt result = Inr v \<Longrightarrow> is_str v \<or> first_content_text result = Inr v"
  unfolding read_result_def
  by (auto dest!: then_do_Inr error_message_text_is_str simp: is_str_def split: if_splits)

lemma read_response_value:
  assumes "read_response rt out = Inr v"
  shows "is_str v \<or>
         (\<exists>r result. out = Responds r \<and> status_code r = 200 \<and> body_json r = Inr result
            \<and> first_content_text result = Inr v)"
proof (cases out)
  case (Raises e)
  with assms show ?thesis by (simp add: read_response_def)
next
  case (Responds r)
  show ?thesis
  proof (cases "status_code r = 200")
    case False
    with assms Responds have "v = PStr (''HTTP Error '' @ str_of_nat (status_code r) @ '': '' @ body_text r)"
      by (simp add: read_response_def)
    then show ?thesis by (simp add: is_str_def)
  next
    case True
    with assms Responds have "then_do (body_json r) (read_result rt) = Inr v"
      by (simp add: read_response_def)
    from then_do_Inr [OF this] obtain result
      where j: "body_json r = Inr result" and rv: "read_result rt result = Inr v"
      by (elim exE conjE)
    from read_result_value [OF rv] show ?thesis
    proof
      assume "is_str v"
      then show ?thesis by (rule disjI1)
    next
      assume "first_content_text result = Inr v"
      with Responds True j show ?thesis by (intro disjI2 exI conjI)
    qed
  qed
qed

lemma snd_call_Inl:
  "read_response rt (srv (name, case a of None \<Rightarrow> [] | Some x \<Rightarrow> x)) = Inl e \<Longrightarrow>
   snd (call_mcp_tool rt srv name a) = Inr (PStr (''Error calling tool: '' @ exc_str rt e))"
  by (simp add: snd_call_mcp_tool)

lemma snd_call_Inr:
  "read_response rt (srv (name, case a of None \<Rightarrow> [] | Some x \<Rightarrow> x)) = Inr v \<Longrightarrow>
   snd (call_mcp_tool rt srv name a) = Inr v"
  by (simp add: snd_call_mcp_tool)

lemma call_value:
  assumes "srv (name, case a of None \<Rightarrow> [] | Some x \<Rightarrow> x) = out"
  shows "\<exists>v. snd (call_mcp_tool rt srv name a) = Inr v \<and>
           (is_str v \<or>
            (\<exists>r result. out = Responds r \<and> status_code r = 200 \<and> body_json r = Inr result
               \<and> first_content_text result = Inr v))"
proof (cases "read_response rt out")
  case (Inl e)
  have "snd (call_mcp_tool rt srv name a) = Inr (PStr (''Error calling tool: '' @ exc_str rt e))"
    by (rule snd_call_Inl) (simp add: assms Inl)
  then show ?thesis by (simp add: is_str_def)
next
  case (Inr w)
  have "snd (call_mcp_tool rt srv name a) = Inr w"
    by (rule snd_call_Inr) (simp add: assms Inr)
  moreover note read_response_value [OF Inr]
  ultimately show ?thesis by simp
qed

text \<open>
  C3. A response with status 200 whose \<open>result\<close> has an empty \<open>content\<close> list has no first
  item: the index raises, the handler catches it, and \<open>_call_mcp_tool\<close> returns the text
  \<open>Error calling tool: list index out of range\<close>. The same expression gives \<open>No result\<close> when
  \<open>content\<close> is missing (the default \<open>[{}]\<close>) and when the first item has no \<open>text\<close>. A
  \<open>text\<close> that is not a string is returned as it is, so the value returned is not a string.
\<close>

theorem call_mcp_tool_empty_content:
  "snd (call_mcp_tool sample_rt
          (\<lambda>call. json_response (PDict [(''result'', PDict [(''content'', PList [])])]))
          ''list_collections'' None) =
     Inr (PStr ''Error calling tool: list index out of range'')
   \<and> snd (call_mcp_tool sample_rt
            (\<lambda>call. json_response (PDict [(''result'', PDict [])]))
            ''list_collections'' None) =
     Inr (PStr ''No result'')
   \<and> snd (call_mcp_tool sample_rt
            (\<lambda>call. json_response (PDict [(''result'', PDict [(''content'', PList [PDict []])])]))
            ''list_collections'' None) =
     Inr (PStr ''No result'')
   \<and> snd (call_mcp_tool sample_rt
            (\<lambda>call. json_response
               (PDict [(''result'', PDict [(''content'', PList [PDict [(''text'', PInt 5)]])])]))
            ''count_documents'' None) =
     Inr (PInt 5)
   \<and> \<not> is_str (PInt 5)"
  by (simp add: call_mcp_tool_def read_response_def read_result_def first_content_text_def
      then_do_def json_response_def sample_rt_def exc_str_def is_str_def)


section \<open>Properties of CosmosQueryAgentExecutor\<close>

text \<open>
  With a framework that has every operation the executor uses, a run adds the three events
  of the \<open>try\<close> block. With a request context whose \<open>task\<close> attribute raises, the \<open>try\<close> block
  ends at that line, \<open>_send_error\<close> reads the attribute again, and the exception leaves
  \<open>execute\<close> with the queue as it was, whatever the other operations do.
\<close>

lemma process_query_never_raises: "\<exists>v. snd (process_query rt srv q) = Inr v"
  by (simp add: process_query_def split: prod.split sum.split)

lemma initialize_True: "snd (initialize rt cfg health) = Inr True"
  by (simp add: initialize_def test_mcp_connection_def Let_def split: http_outcome.split)

lemma first_raise_complete: "first_raise complete_framework cs = None"
  by (induction cs) (simp_all add: complete_framework_def)

lemma enqueue_complete: "enqueue complete_framework building ev queue = (queue @ [ev], Inr ())"
  by (simp add: enqueue_def first_raise_complete complete_framework_def)

lemma send_error_complete:
  "send_error complete_framework task queue m = (queue @ error_events task m, Inr ())"
  by (simp add: send_error_def get_task_def new_text_artifact_def enqueue_artifact_def
      enqueue_status_def enqueue_complete error_events_def complete_framework_def)

lemma execute_task_complete:
  "agent_process_query ag (description task) = Inr response \<Longrightarrow>
   execute_task rt complete_framework ag task queue = (queue @ success_events task response, Inr ())"
  by (simp add: execute_task_def get_task_def new_text_artifact_def enqueue_artifact_def
      enqueue_status_def enqueue_complete success_events_def in_progress_event_def
      complete_framework_def)

lemma execute_with_complete:
  assumes "agent_process_query ag (description task) = Inr response"
    and "initialized \<or> agent_initialize ag = Inr True"
  shows "execute_with rt complete_framework ag initialized task queue =
           (queue @ success_events task response, True, None)"
  using assms
  by (auto simp: execute_with_def try_block_def handler_def execute_task_complete)

lemma send_error_without_task:
  "fw Context_task = Some e \<Longrightarrow> send_error fw task queue m = (queue, Inl e)"
  by (simp add: send_error_def get_task_def)

lemma execute_task_without_task:
  "fw Context_task = Some e \<Longrightarrow> execute_task rt fw ag task queue = (queue, Inl e)"
  by (simp add: execute_task_def get_task_def)

lemma execute_with_without_task:
  assumes "fw Context_task = Some e"
  shows "\<exists>i. execute_with rt fw ag initialized task queue = (queue, i, Some e)"
  using assms
  by (auto simp: execute_with_def try_block_def handler_def execute_task_without_task
      send_error_without_task split: sum.split)

lemma enqueue_cases:
  "enqueue fw building ev queue = (queue @ [ev], Inr ()) \<or> (\<exists>e. enqueue fw building ev queue = (queue, Inl e))"
  by (simp add: enqueue_def split: option.split)

lemma send_error_appends:
  "\<exists>xs r. send_error fw task queue m = (queue @ xs, r) \<and> set xs \<subseteq> set (error_events task m)"
  using enqueue_cases [of fw "[Task_id, New_artifact_event]"
      "TaskArtifactUpdateEvent (task_id task)
         \<lparr>artifact_task_id = task_id task,
          content = PStr (''Sorry, I encountered an error while querying the Cosmos DB: '' @ m),
          title = ''Error''\<rparr>" queue]
    enqueue_cases [of fw "[Task_id, Status_member Status_FAILED, State_member State_FAILED, New_status_event]"
      "TaskStatusUpdateEvent (task_id task) Status_FAILED State_FAILED m"
      "queue @ [TaskArtifactUpdateEvent (task_id task)
         \<lparr>artifact_task_id = task_id task,
          content = PStr (''Sorry, I encountered an error while querying the Cosmos DB: '' @ m),
          title = ''Error''\<rparr>]"]
  by (auto simp: send_error_def get_task_def new_text_artifact_def enqueue_artifact_def
      enqueue_status_def error_events_def split: sum.split option.split)


lemma enqueue_status_appends:
  "\<exists>xs r. enqueue_status fw task st state msg queue = (queue @ xs, r) \<and>
       set xs \<subseteq> {TaskStatusUpdateEvent (task_id task) st state msg}"
  using enqueue_cases [of fw "[Task_id, Status_member st, State_member state, New_status_event]"
      "TaskStatusUpdateEvent (task_id task) st state msg" queue]
  by (auto simp: enqueue_status_def)

lemma enqueue_artifact_appends:
  "\<exists>xs r. enqueue_artifact fw task a queue = (queue @ xs, r) \<and>
       set xs \<subseteq> {TaskArtifactUpdateEvent (task_id task) a}"
  using enqueue_cases [of fw "[Task_id, New_artifact_event]"
      "TaskArtifactUpdateEvent (task_id task) a" queue]
  by (auto simp: enqueue_artifact_def)

lemma execute_task_appends:
  "\<exists>xs r. execute_task rt fw ag task queue = (queue @ xs, r) \<and> (\<forall>ev\<in>set xs. \<not> is_failed_status ev)"
proof -
  let ?ip = "TaskStatusUpdateEvent (task_id task) Status_IN_PROGRESS State_RUNNING
               ''Processing Cosmos DB query...''"
  obtain xs r where ip: "enqueue_status fw task Status_IN_PROGRESS State_RUNNING
      ''Processing Cosmos DB query...'' queue = (queue @ xs, r)" and xs: "set xs \<subseteq> {?ip}"
    using enqueue_status_appends by blast
  have nf: "\<forall>ev\<in>set xs. \<not> is_failed_status ev"
    using xs by (auto simp: is_failed_status_def)
  show ?thesis
  proof (cases "get_task fw task")
    case (Inl e)
    then show ?thesis by (simp add: execute_task_def)
  next
    case task: (Inr t)
    then have t: "t = task" by (simp add: get_task_def split: option.splits)
    show ?thesis
    proof (cases "fw Task_description")
      case (Some e)
      then show ?thesis using task by (simp add: execute_task_def)
    next
      case None
      show ?thesis
      proof (cases r)
        case (Inl e)
        then show ?thesis using task t None ip nf by (simp add: execute_task_def)
      next
        case (Inr u)
        show ?thesis
        proof (cases "agent_process_query ag (description task)")
          case (Inl e)
          then show ?thesis using task t None ip nf Inr by (simp add: execute_task_def)
        next
          case resp: (Inr response)
          show ?thesis
          proof (cases "new_text_artifact fw task response ''Cosmos DB Query Result''")
            case (Inl e)
            then show ?thesis using task t None ip nf Inr resp by (simp add: execute_task_def)
          next
            case art: (Inr a)
            obtain ys r2 where a: "enqueue_artifact fw task a (queue @ xs) = ((queue @ xs) @ ys, r2)"
              and ys: "set ys \<subseteq> {TaskArtifactUpdateEvent (task_id task) a}"
              using enqueue_artifact_appends by blast
            obtain zs r3 where c: "enqueue_status fw task Status_COMPLETED State_COMPLETED
                ''Cosmos DB query completed successfully'' ((queue @ xs) @ ys) = (((queue @ xs) @ ys) @ zs, r3)"
              and zs: "set zs \<subseteq> {TaskStatusUpdateEvent (task_id task) Status_COMPLETED State_COMPLETED
                ''Cosmos DB query completed successfully''}"
              using enqueue_status_appends by blast
            have nf2: "\<forall>ev\<in>set (xs @ ys @ zs). \<not> is_failed_status ev"
              using nf ys zs by (auto simp: is_failed_status_def)
            show ?thesis
            proof (cases r2)
              case (Inl e)
              then show ?thesis using task t None ip Inr resp art a nf2
                by (auto simp: execute_task_def)
            next
              case r2: (Inr u2)
              then show ?thesis using task t None ip Inr resp art a c nf2
                by (auto simp: execute_task_def)
            qed
          qed
        qed
      qed
    qed
  qed
qed


lemma try_block_cosmos:
  "try_block rt fw (cosmos_agent rt cfg srv health) initialized task queue =
     (fst (execute_task rt fw (cosmos_agent rt cfg srv health) task queue), True,
      snd (execute_task rt fw (cosmos_agent rt cfg srv health) task queue))"
  by (simp add: try_block_def cosmos_agent_def initialize_True split: prod.split)

lemma init_failure_not_enqueued:
  "TaskStatusUpdateEvent (task_id task) Status_FAILED State_FAILED
      ''Failed to initialize Cosmos Query Agent''
     \<notin> set (enqueued queue (execute rt fw cfg srv health initialized task queue))"
proof -
  let ?ag = "cosmos_agent rt cfg srv health"
  let ?ev = "TaskStatusUpdateEvent (task_id task) Status_FAILED State_FAILED
      ''Failed to initialize Cosmos Query Agent''"
  obtain xs r where xs: "execute_task rt fw ?ag task queue = (queue @ xs, r)"
    and nf: "\<forall>ev\<in>set xs. \<not> is_failed_status ev"
    using execute_task_appends by blast
  have a: "?ev \<notin> set xs"
    using nf by (auto simp: is_failed_status_def)
  show ?thesis
  proof (cases r)
    case (Inr u)
    then show ?thesis
      using xs a by (simp add: execute_def execute_with_def try_block_cosmos handler_def enqueued_def)
  next
    case (Inl e)
    let ?m = "''Error executing Cosmos Query Agent task: '' @ exc_str rt e"
    obtain ys r2 where ys: "send_error fw task (queue @ xs) ?m = ((queue @ xs) @ ys, r2)"
      and sub: "set ys \<subseteq> set (error_events task ?m)"
      using send_error_appends by blast
    have b: "?ev \<notin> set ys"
      using sub by (auto simp: error_events_def)
    show ?thesis
      using xs Inl ys a b
      by (simp add: execute_def execute_with_def try_block_cosmos handler_def enqueued_def
          split: sum.split)
  qed
qed

text \<open>
  C8. \<open>initialize\<close> returns \<open>True\<close> for every configuration and every outcome of the health
  request: \<open>_test_mcp_connection\<close> never raises, and when the request raises it logs one
  warning. So \<open>execute\<close> always goes on to the task and leaves \<open>_initialized\<close> set: with
  every framework, what it does is the handler applied to the rest of the \<open>try\<close> block, and
  the status of the failed-initialization branch is never among the events it adds.
\<close>

theorem initialize_always_True:
  "snd (initialize rt cfg health) = Inr True
   \<and> snd (test_mcp_connection rt health) = Inr ()
   \<and> fst (test_mcp_connection rt (Raises e)) =
       [Log_warning (''Could not test MCP server health endpoint: '' @ exc_str rt e)]
   \<and> execute rt fw cfg srv health initialized task queue =
       handler rt fw task
         (fst (execute_task rt fw (cosmos_agent rt cfg srv health) task queue), True,
          snd (execute_task rt fw (cosmos_agent rt cfg srv health) task queue))
   \<and> TaskStatusUpdateEvent (task_id task) Status_FAILED State_FAILED
        ''Failed to initialize Cosmos Query Agent''
       \<notin> set (enqueued queue (execute rt fw cfg srv health initialized task queue))
   \<and> fst (execute rt complete_framework cfg srv health initialized task queue) \<noteq>
       fst (send_error complete_framework task queue ''Failed to initialize Cosmos Query Agent'')"
proof -
  obtain v where v: "snd (process_query rt srv (description task)) = Inr v"
    using process_query_never_raises by blast
  have "execute rt complete_framework cfg srv health initialized task queue =
          (queue @ success_events task v, True, None)"
    unfolding execute_def
    by (rule execute_with_complete) (simp_all add: cosmos_agent_def v initialize_True)
  then have "fst (execute rt complete_framework cfg srv health initialized task queue) \<noteq>
       fst (send_error complete_framework task queue ''Failed to initialize Cosmos Query Agent'')"
    by (simp add: send_error_complete success_events_def error_events_def)
  then show ?thesis
    using init_failure_not_enqueued [of task queue rt fw cfg srv health initialized]
    by (simp add: initialize_True test_mcp_connection_def execute_def execute_with_def
        try_block_cosmos split: http_outcome.split)
qed


text \<open>
  C5. The exception raised at \<open>request_context.task\<close> is an exception raised during execution.
  The handler calls \<open>_send_error\<close>, which raises at the same attribute: no error artifact and
  no \<open>FAILED\<close> status is added, and the exception leaves \<open>execute\<close>.
\<close>

theorem execute_failure_not_reported:
  "try_block sample_rt a2a_request_context
       (cosmos_agent sample_rt sample_cfg (text_server ''ok'') (Responds (plain_response 200 [] ''OK'')))
       True sample_task [] =
     ([], True, Inl AttributeError)
   \<and> execute sample_rt a2a_request_context sample_cfg (text_server ''ok'')
       (Responds (plain_response 200 [] ''OK'')) True sample_task [] =
     ([], True, Some AttributeError)
   \<and> \<not> list_ex is_failed_status
         (fst (execute sample_rt a2a_request_context sample_cfg (text_server ''ok'')
                (Responds (plain_response 200 [] ''OK'')) True sample_task []))
   \<and> send_error a2a_request_context sample_task []
        ''Error executing Cosmos Query Agent task: error'' = ([], Inl AttributeError)"
  by (simp add: execute_def execute_with_def try_block_cosmos handler_def enqueued_def
      execute_task_without_task send_error_without_task a2a_request_context_def)


section \<open>Properties of test_mcp_complete\<close>

lemma list_tools_one: "list_tools srv sid [a] = [Tools_list a sid]"
  by (simp split: http_outcome.split)

lemma list_tools_two:
  "list_tools srv sid [a, b] =
     Tools_list a sid #
       (case srv (Tools_list a sid) of
          Raises e \<Rightarrow> []
        | Responds t \<Rightarrow> if tools_list_success t then [] else [Tools_list b sid])"
  by (simp split: http_outcome.split)

lemma test_mcp_complete_session:
  assumes "srv Initialize = Responds response" "extract_session_id response = Some sid" "sid \<noteq> []"
  shows "test_mcp_complete srv =
     Initialize # list_tools srv sid [''mcp-session-id'', ''x-session-id'']"
  using assms by (simp add: test_mcp_complete_def)

text \<open>
  C7, as stated, fails. The extraction is \<open>a or b\<close>: an \<open>mcp-session-id\<close> header that is present
  with an empty value is passed over and the \<open>x-session-id\<close> value is taken. And a
  \<open>tools/list\<close> request that raises ends the script: the second header name is not tried.
\<close>

theorem session_id_counterexample:
  "map_of (headers (plain_response 200 [(''mcp-session-id'', []), (''x-session-id'', ''abc'')] []))
       ''mcp-session-id'' = Some []
   \<and> session_id_by_presence
       (plain_response 200 [(''mcp-session-id'', []), (''x-session-id'', ''abc'')] []) = Some []
   \<and> extract_session_id
       (plain_response 200 [(''mcp-session-id'', []), (''x-session-id'', ''abc'')] []) = Some ''abc''
   \<and> test_mcp_complete empty_header_server = [Initialize, Tools_list ''mcp-session-id'' ''abc'']
   \<and> test_mcp_complete raising_server = [Initialize, Tools_list ''mcp-session-id'' ''abc'']"
  by code_simp

text \<open>
  C7, amended. The session ID is the \<open>mcp-session-id\<close> value if that header is present and
  not empty, otherwise the \<open>x-session-id\<close> value. When the \<open>initialize\<close> request raises, or the
  session ID is \<open>None\<close> or empty, the script sends no \<open>tools/list\<close> request. Otherwise it sends
  one under \<open>mcp-session-id\<close>, and a second one under \<open>x-session-id\<close> exactly when the first was
  answered and the answer was not a success (status 200 and no \<open>error\<close> in the body); it
  sends no other request.
\<close>

theorem test_mcp_complete_requests:
  "extract_session_id response =
     (case map_of (headers response) ''mcp-session-id'' of
        None \<Rightarrow> map_of (headers response) ''x-session-id''
      | Some v \<Rightarrow> if v = [] then map_of (headers response) ''x-session-id'' else Some v)
   \<and> (srv Initialize = Raises e \<longrightarrow> test_mcp_complete srv = [Initialize])
   \<and> (srv Initialize = Responds response
        \<and> (extract_session_id response = None \<or> extract_session_id response = Some []) \<longrightarrow>
          test_mcp_complete srv = [Initialize])
   \<and> (srv Initialize = Responds response \<and> extract_session_id response = Some sid \<and> sid \<noteq> []
        \<and> srv (Tools_list ''mcp-session-id'' sid) = Responds t \<and> tools_list_success t \<longrightarrow>
          test_mcp_complete srv = [Initialize, Tools_list ''mcp-session-id'' sid])
   \<and> (srv Initialize = Responds response \<and> extract_session_id response = Some sid \<and> sid \<noteq> []
        \<and> srv (Tools_list ''mcp-session-id'' sid) = Raises e \<longrightarrow>
          test_mcp_complete srv = [Initialize, Tools_list ''mcp-session-id'' sid])
   \<and> (srv Initialize = Responds response \<and> extract_session_id response = Some sid \<and> sid \<noteq> []
        \<and> srv (Tools_list ''mcp-session-id'' sid) = Responds t \<and> \<not> tools_list_success t \<longrightarrow>
          test_mcp_complete srv =
            [Initialize, Tools_list ''mcp-session-id'' sid, Tools_list ''x-session-id'' sid])"
proof (intro conjI impI)
  show "extract_session_id response =
     (case map_of (headers response) ''mcp-session-id'' of
        None \<Rightarrow> map_of (headers response) ''x-session-id''
      | Some v \<Rightarrow> if v = [] then map_of (headers response) ''x-session-id'' else Some v)"
    by (simp add: extract_session_id_def py_or_def split: option.split)
  show "test_mcp_complete srv = [Initialize]" if "srv Initialize = Raises e"
    using that by (simp add: test_mcp_complete_def)
  show "test_mcp_complete srv = [Initialize]"
    if "srv Initialize = Responds response
        \<and> (extract_session_id response = None \<or> extract_session_id response = Some [])"
    using that by (auto simp: test_mcp_complete_def)
  show "test_mcp_complete srv = [Initialize, Tools_list ''mcp-session-id'' sid]"
    if "srv Initialize = Responds response \<and> extract_session_id response = Some sid \<and> sid \<noteq> []
        \<and> srv (Tools_list ''mcp-session-id'' sid) = Responds t \<and> tools_list_success t"
    using that by (simp add: test_mcp_complete_session [of srv response sid] list_tools_two list_tools_one del: list_tools.simps)
  show "test_mcp_complete srv = [Initialize, Tools_list ''mcp-session-id'' sid]"
    if "srv Initialize = Responds response \<and> extract_session_id response = Some sid \<and> sid \<noteq> []
        \<and> srv (Tools_list ''mcp-session-id'' sid) = Raises e"
    using that by (simp add: test_mcp_complete_session [of srv response sid] list_tools_two list_tools_one del: list_tools.simps)
  show "test_mcp_complete srv =
            [Initialize, Tools_list ''mcp-session-id'' sid, Tools_list ''x-session-id'' sid]"
    if "srv Initialize = Responds response \<and> extract_session_id response = Some sid \<and> sid \<noteq> []
        \<and> srv (Tools_list ''mcp-session-id'' sid) = Responds t \<and> \<not> tools_list_success t"
    using that by (simp add: test_mcp_complete_session [of srv response sid] list_tools_two list_tools_one del: list_tools.simps)
qed

theorem test_mcp_complete_requests_witness:
  "test_mcp_complete x_session_server =
     [Initialize, Tools_list ''mcp-session-id'' ''s1'', Tools_list ''x-session-id'' ''s1'']"
proof -
  have "extract_session_id (plain_response 200 [(''mcp-session-id'', ''s1'')] []) = Some ''s1''"
    by code_simp
  moreover have "\<not> tools_list_success (plain_response 400 [] ''Bad Request'')"
    by code_simp
  ultimately show ?thesis
    using test_mcp_complete_requests [where srv = x_session_server
        and response = "plain_response 200 [(''mcp-session-id'', ''s1'')] []"
        and sid = "''s1''" and t = "plain_response 400 [] ''Bad Request''"]
    by (simp add: x_session_server_def)
qed


section \<open>Properties of SemanticKernelMCPAgentExecutor\<close>

text \<open>
  When the loop has read every partial and the stream is exhausted, the events added are
  those of the last partial alone: for a last partial with the three keys, the events of
  the \<open>if\<close>/\<open>elif\<close>/\<open>else\<close> on its values. The \<open>failed\<close> status of the handlers is built without
  \<open>final\<close> and \<open>context_id\<close>, so its constructor raises and the handlers add nothing.
\<close>

lemma consume_append:
  "consume (ps @ qs) vars = (case consume ps vars of Inl e \<Rightarrow> Inl e | Inr v \<Rightarrow> consume qs v)"
  by (induction ps arbitrary: vars) (simp_all split: sum.split)

lemma consume_single: "consume [p] vars = consume [p] None"
  by (simp split: sum.split)

lemma consume_last:
  assumes "consume ps None = Inr vars"
  shows "consume (ps @ [p]) None = consume [p] None"
  using assms by (simp add: consume_append consume_single [of p vars] del: consume.simps)

lemma consume_keys:
  assumes "py_getitem p ''require_user_input'' = Inr r" "py_getitem p ''is_task_complete'' = Inr d"
    "py_getitem p ''content'' = Inr c"
  shows "consume [p] None = Inr (Some (r, d, c))"
  using assms by simp

lemma outcome_enqueues:
  "outcome task vars queue = (queue @ outcome_events task vars, Inr ())"
  by (simp add: outcome_def outcome_events_def enqueue_status_update_def status_update_event_def
      split: prod.split)

lemma failed_status_raises: "failed_status text task queue = (queue, Inl ValidationError)"
  by (simp add: failed_status_def enqueue_status_update_def status_update_event_def)

lemma sk_run_exhausted:
  "sk_run rt task (ps, None) queue =
     (case consume ps None of
        Inl e \<Rightarrow> (queue, Some ValidationError)
      | Inr None \<Rightarrow> (queue, Some ValidationError)
      | Inr (Some vars) \<Rightarrow> (queue @ outcome_events task vars, None))"
  by (simp add: sk_run_def sk_try_def run_stream_def outcome_enqueues failed_status_raises
      split: sum.split option.split)

lemma sk_run_last_partial:
  assumes "consume ps None = Inr vars"
  shows "sk_run rt task (ps @ [p], None) queue = sk_run rt task ([p], None) queue"
  by (simp only: sk_run_exhausted consume_last [OF assms])

lemma sk_run_outcome:
  assumes "consume ps None = Inr vars" "py_getitem p ''require_user_input'' = Inr r"
    "py_getitem p ''is_task_complete'' = Inr d" "py_getitem p ''content'' = Inr c"
  shows "sk_run rt task (ps @ [p], None) queue = (queue @ outcome_events task (r, d, c), None)"
proof -
  have "consume (ps @ [p]) None = Inr (Some (r, d, c))"
    using assms consume_last [of ps vars p] consume_keys [of p r d c] by simp
  then show ?thesis
    by (simp add: sk_run_exhausted)
qed

lemma sk_run_failed_path:
  assumes "run_stream s = Inl e \<or> run_stream s = Inr None"
  shows "sk_run rt task s queue = (queue, Some ValidationError)"
  using assms by (auto simp: sk_run_def sk_try_def failed_status_raises)

text \<open>
  C10. For a stream that yields no partial, the \<open>if\<close> after the loop raises on the unbound
  variable, the handler builds the \<open>failed\<close> status without \<open>final\<close> and \<open>context_id\<close>, the
  constructor raises, and \<open>execute\<close> ends with that exception: the queue holds the new task
  and no \<open>failed\<close> status. The constructions of the \<open>try\<close> block pass both fields.
\<close>

theorem empty_stream_enqueues_no_failed_status:
  "sk_try sample_sk_task (empty_stream ''open example.com'' ''c1'') [Task_created sample_sk_task] =
     ([Task_created sample_sk_task], Inl UnboundLocalError)
   \<and> sk_execute sample_rt None empty_stream False sample_request [] =
     ([Task_created sample_sk_task], True, Some ValidationError)
   \<and> status_update_event Sk_failed
        (Some \<lparr>message_text = PStr ''Playwright agent execution failed: error'',
               message_context_id = None, message_task_id = None\<rparr>)
        None None ''t1'' = Inl ValidationError
   \<and> status_update_event Sk_completed None (Some True) (Some ''c1'') ''t1'' =
       Inr (Status_update Sk_completed None True ''c1'' ''t1'')"
  by (simp add: sk_execute_def sk_execute_task_def ensure_task_def sample_request_def
      sk_run_def sk_try_def run_stream_def empty_stream_def failed_status_raises
      status_update_event_def sample_sk_task_def)

end
